theory Spec2Isabelle
  imports Complex_Main
begin

section \<open>Slit tracing: the driver class TraceSlits of pypeit/traceslits.py\<close>

text \<open>
  The class \<^verbatim>\<open>TraceSlits\<close> drives the tracing of slit edges. Its methods are thin
  wrappers around the functions of \<^verbatim>\<open>pypeit.core.trace_slits\<close>,
  \<^verbatim>\<open>pypeit.core.pixels\<close> and \<^verbatim>\<open>pypeit.utils\<close>; what the class itself
  decides is the control flow of \<^verbatim>\<open>run\<close>, the bookkeeping of the attributes and a
  few array computations written with numpy (\<^verbatim>\<open>_trim_slits\<close>, \<^verbatim>\<open>_assign_edges\<close>,
  \<^verbatim>\<open>_set_lrminx\<close>, \<^verbatim>\<open>_chk_for_longslit\<close>, the branch without PCA of
  \<^verbatim>\<open>_pca\<close>).

  The functions of those modules are parameters of the model (the record \<open>core\<close>);
  what the model states about \<^verbatim>\<open>msgs.error\<close> and scipy's \<^verbatim>\<open>uniform_filter\<close> is
  taken from the spec.

  Conventions of the embedding.
  \<^item> Floating-point pixels and positions are real numbers: rounding, infinities and
    NaN inside an array are not modelled. The NaN that \<^verbatim>\<open>np.median\<close> returns for an
    empty array is the value \<open>None\<close> of \<open>median\<close>.
  \<^item> Python integers and the integer labels of the edge image are \<open>int\<close>.
  \<^item> An image (\<^verbatim>\<open>mstrace\<close>, \<^verbatim>\<open>binarr\<close>, \<^verbatim>\<open>siglev\<close>, \<^verbatim>\<open>edgearr\<close>) is the
    list of its rows.
  \<^item> The trace arrays \<^verbatim>\<open>lcen\<close>, \<^verbatim>\<open>rcen\<close> of shape \<^verbatim>\<open>[nrow, nslit]\<close> are stored
    by slit: element \<open>o\<close> of the list is the column \<^verbatim>\<open>lcen[:, o]\<close>, a list of
    \<^verbatim>\<open>nrow\<close> positions, so that \<^verbatim>\<open>lcen.shape[1]\<close> is the length of the list. The
    arrays \<^verbatim>\<open>lcent\<close>, \<^verbatim>\<open>rcent\<close> of shape \<^verbatim>\<open>[nslit, nrow]\<close> are lists of slits
    as they stand, and the coefficient arrays \<^verbatim>\<open>lcoeff\<close>, \<^verbatim>\<open>rcoeff\<close> of shape
    \<^verbatim>\<open>[ncoeff, nedge]\<close> are stored by edge.
  \<^item> Two arrays combined elementwise must have the same shape, else the operation is a
    \<open>ValueError\<close>; numpy's broadcasting of axes of length one is not modelled.
  \<^item> Every exception is a value \<open>Inl e\<close> of the result; a method that mutates
    \<^verbatim>\<open>self\<close> takes the state and returns the new one.
\<close>

subsection \<open>Errors and numpy helpers\<close>

datatype py_error =
    TypeError | ValueError | IndexError | AttributeError | NameError
  | PypeItError string

type_synonym 'a result = "py_error + 'a"

definition ebind :: "'a result \<Rightarrow> ('a \<Rightarrow> 'b result) \<Rightarrow> 'b result" where
  "ebind m f = (case m of Inl e \<Rightarrow> Inl e | Inr x \<Rightarrow> f x)"

text \<open>\<^verbatim>\<open>np.max\<close> and \<^verbatim>\<open>np.min\<close> of a flat array: a zero-size array is a ValueError.\<close>

definition amax :: "'a::linorder list \<Rightarrow> 'a result" where
  "amax xs = (case xs of [] \<Rightarrow> Inl ValueError | x # r \<Rightarrow> Inr (fold max r x))"

definition amin :: "'a::linorder list \<Rightarrow> 'a result" where
  "amin xs = (case xs of [] \<Rightarrow> Inl ValueError | x # r \<Rightarrow> Inr (fold min r x))"

text \<open>\<^verbatim>\<open>a[:, o]\<close> on an array stored by column, and \<^verbatim>\<open>a - b\<close> on two columns.\<close>

definition col :: "'a list list \<Rightarrow> nat \<Rightarrow> 'a list result" where
  "col a k = (if k < length a then Inr (a ! k) else Inl IndexError)"

definition sub1 :: "real list \<Rightarrow> real list \<Rightarrow> real list result" where
  "sub1 r l = (if length r = length l then Inr (map2 (-) r l) else Inl ValueError)"

text \<open>
  \<^verbatim>\<open>np.median\<close>: the middle element of the sorted array, or the mean of the two
  middle elements when the length is even; NaN (\<open>None\<close>) for an empty array.
\<close>

definition median :: "real list \<Rightarrow> real option" where
  "median xs =
     (let s = sort xs; n = length s in
      if n = 0 then None
      else if odd n then Some (s ! (n div 2))
      else Some ((s ! (n div 2 - 1) + s ! (n div 2)) / 2))"

subsection \<open>The parameter set and the attributes of the class\<close>

type_synonym image = "real list list"
type_synonym edgeimg = "int list list"
type_synonym curves = "real list list"

text \<open>The keys of \<^verbatim>\<open>TraceSlitsPar\<close> that the class reads.\<close>

record tspar =
  single :: "real list"
  maxgap :: "real option"
  pcatype :: string
  func :: string
  polyorder :: int
  diffpolyorder :: int
  pcapar :: "int list"
  pcaextrap :: "int list"
  medrep :: int
  sobel_mode :: string
  sigdetect :: real
  number :: int
  fracignore :: real
  min_slit_width :: real
  pad :: int
  trim :: "real \<times> real"
  maxshift :: "real option"

text \<open>The dictionary that \<^verbatim>\<open>_fill_tslits_dict\<close> builds.\<close>

record tslits =
  d_lcen :: "curves option"
  d_rcen :: "curves option"
  d_pixcen :: "int list list option"
  d_pixwid :: "int list option"
  d_lordpix :: "int list list option"
  d_rordpix :: "int list list option"
  d_extrapord :: "bool list option"
  d_slitpix :: "int list list option"
  d_ximg :: image
  d_edge_mask :: "bool list list"

text \<open>
  The attributes of an instance. An attribute that \<^verbatim>\<open>__init__\<close> sets to \<^verbatim>\<open>None\<close>
  and that a method of the class may read before any stage has written it is an
  \<open>option\<close>; \<^verbatim>\<open>ximg\<close> and \<^verbatim>\<open>edge_mask\<close>, which \<^verbatim>\<open>__init__\<close> does not create,
  are \<open>None\<close> as long as the attribute does not exist. The edge image, the edge
  counts, the group ranges and the fit results are written by a stage of
  \<^verbatim>\<open>run\<close> before they are read: they carry their value type,
  and the model describes instances on which an edge image exists. \<open>'tc\<close> is the type
  of the dictionary \<^verbatim>\<open>tc_dict\<close>, which only the functions of
  \<^verbatim>\<open>pypeit.core.trace_slits\<close> look into.
\<close>

record 'tc TraceSlits =
  mstrace :: image
  pixlocn :: "(real \<times> real) list list"
  par :: tspar
  det :: "int option"
  ednum :: int
  binbpx :: image
  lcen :: "curves option"
  rcen :: "curves option"
  tc_dict :: "'tc option"
  edgearr :: edgeimg
  edgearrcp :: edgeimg
  siglev :: "image option"
  steps :: "string list"
  extrapord :: "bool list option"
  pixcen :: "int list list option"
  pixwid :: "int list option"
  lordpix :: "int list list option"
  rordpix :: "int list list option"
  slitpix :: "int list list option"
  ximg :: "image option"
  edge_mask :: "bool list list option"
  lcen_tweak :: "curves option"
  rcen_tweak :: "curves option"
  binarr :: image
  user_set :: "bool option"
  lmin :: int
  lmax :: int
  rmin :: int
  rmax :: int
  lcnt :: int
  rcnt :: int
  lcoeff :: "real list list"
  lnmbrarr :: "real list list"
  ldiffarr :: "real list list"
  lwghtarr :: "real list list"
  rcoeff :: "real list list"
  rnmbrarr :: "real list list"
  rdiffarr :: "real list list"
  rwghtarr :: "real list list"
  lcent :: curves
  rcent :: curves
  gord :: "int list"
  slitcen :: curves
  tslits_dict :: "tslits option"

text \<open>\<^verbatim>\<open>mstrace.shape\<close>: the number of rows and the length of a row.\<close>

definition shape :: "'a list list \<Rightarrow> nat \<times> nat" where
  "shape a = (length a, (case a of [] \<Rightarrow> 0 | r # _ \<Rightarrow> length r))"

subsection \<open>_trim_slits\<close>

text \<open>
  The body of the loop of \<^verbatim>\<open>_trim_slits\<close> for the slit \<open>k\<close>: the value of
  \<^verbatim>\<open>mask[o]\<close> after the iteration (\<open>True\<close> for 1), or the exception the iteration
  raises. \<^verbatim>\<open>np.min\<close> of an empty column is a ValueError, a slit index beyond
  \<^verbatim>\<open>rcen\<close> an IndexError, a subscript of \<^verbatim>\<open>rcen = None\<close> a TypeError, and the
  product of the median width with \<^verbatim>\<open>plate_scale = None\<close> a TypeError. A NaN width compares false with
  \<^verbatim>\<open>min_slit_width\<close>.
\<close>

definition rcol :: "'a list list option \<Rightarrow> nat \<Rightarrow> 'a list result" where
  "rcol Ro k = (case Ro of None \<Rightarrow> Inl TypeError | Some R \<Rightarrow> col R k)"

definition slit_off_detector ::
  "curves \<Rightarrow> curves option \<Rightarrow> nat \<Rightarrow> nat \<Rightarrow> bool result" where
  "slit_off_detector L R ncols k =
     ebind (amin (L ! k)) (\<lambda>lo.
       if lo > real ncols then Inr True
       else ebind (rcol R k) (\<lambda>r. ebind (amax r) (\<lambda>hi. Inr (hi < 0))))"

definition slit_too_short ::
  "curves \<Rightarrow> curves option \<Rightarrow> real option \<Rightarrow> real \<Rightarrow> nat \<Rightarrow> bool result" where
  "slit_too_short L R plate_scale minw k =
     ebind (rcol R k) (\<lambda>r. ebind (sub1 r (L ! k)) (\<lambda>w.
       case plate_scale of
         None \<Rightarrow> Inl TypeError
       | Some p \<Rightarrow>
           (case median w of
              None \<Rightarrow> Inr False
            | Some m \<Rightarrow> Inr (m * p < minw))))"

definition slit_masked ::
  "curves \<Rightarrow> curves option \<Rightarrow> nat \<Rightarrow> bool \<Rightarrow> real option \<Rightarrow> real \<Rightarrow> nat \<Rightarrow> bool result" where
  "slit_masked L R ncols trim_short_slits plate_scale minw k =
     ebind (slit_off_detector L R ncols k) (\<lambda>off.
       if trim_short_slits
       then ebind (slit_too_short L R plate_scale minw k) (\<lambda>short. Inr (off \<or> short))
       else Inr off)"

text \<open>The loop \<^verbatim>\<open>for o in range(nslit)\<close>: it stops at the first exception.\<close>

fun trim_mask ::
  "curves \<Rightarrow> curves option \<Rightarrow> nat \<Rightarrow> bool \<Rightarrow> real option \<Rightarrow> real \<Rightarrow> nat list \<Rightarrow>
   bool list result" where
  "trim_mask L R ncols tss ps minw [] = Inr []"
| "trim_mask L R ncols tss ps minw (k # ks) =
     ebind (slit_masked L R ncols tss ps minw k) (\<lambda>m.
       ebind (trim_mask L R ncols tss ps minw ks) (\<lambda>ms. Inr (m # ms)))"

text \<open>\<^verbatim>\<open>wok = np.where(mask == 0)[0]\<close>, for the mask of the slits \<open>0 .. nslit-1\<close>.\<close>

definition wok_of :: "bool list \<Rightarrow> nat list" where
  "wok_of msk = filter (\<lambda>k. \<not> msk ! k) [0..<length msk]"

definition trim_slits ::
  "'tc TraceSlits \<Rightarrow> bool \<Rightarrow> real option \<Rightarrow> 'tc TraceSlits result" where
  "trim_slits st trim_short_slits plate_scale =
     (case lcen st of
        None \<Rightarrow> Inl AttributeError
      | Some L \<Rightarrow>
          ebind (trim_mask L (rcen st)
                  (snd (shape (mstrace st))) trim_short_slits plate_scale
                  (min_slit_width (par st)) [0..<length L])
            (\<lambda>msk.
               case rcen st of
                 None \<Rightarrow> Inl TypeError
               | Some R \<Rightarrow>
                   Inr (st\<lparr>lcen := Some (map ((!) L) (wok_of msk)),
                           rcen := Some (map ((!) R) (wok_of msk)),
                           steps := steps st @ [''_trim_slits'']\<rparr>)))"

subsection \<open>The functions the class calls\<close>

text \<open>
  The modules \<^verbatim>\<open>pypeit.core.trace_slits\<close>, \<^verbatim>\<open>pypeit.core.pixels\<close> and
  \<^verbatim>\<open>pypeit.utils\<close> are not part of the sources at hand. Each function of theirs that
  the class calls is a field of the record below, with the arguments in the order of the
  call, and may raise. A function that works on \<^verbatim>\<open>edgearr\<close> in place
  (\<^verbatim>\<open>match_edges\<close>, \<^verbatim>\<open>assign_slits\<close>) returns the new edge image; apart from that
  the functions are taken to leave their arguments alone. \<open>nan_as_int\<close> is the integer
  that \<^verbatim>\<open>astype(np.int)\<close> makes of NaN on the platform.
\<close>

type_synonym fit = "real list list \<times> real list list \<times> real list list \<times> real list list"

record 'tc core =
  edgearr_from_binarr ::
    "image \<Rightarrow> image \<Rightarrow> int \<Rightarrow> string \<Rightarrow> real \<Rightarrow> int \<Rightarrow> (image \<times> edgeimg) result"
  edgearr_from_user :: "nat \<times> nat \<Rightarrow> real \<Rightarrow> real \<Rightarrow> int \<Rightarrow> edgeimg result"
  match_edges :: "edgeimg \<Rightarrow> int \<Rightarrow> (edgeimg \<times> int \<times> int) result"
  edgearr_add_left_right ::
    "edgeimg \<Rightarrow> image \<Rightarrow> image \<Rightarrow> int \<Rightarrow> int \<Rightarrow> int \<Rightarrow> (edgeimg \<times> int \<times> int) result"
  assign_slits :: "image \<Rightarrow> edgeimg \<Rightarrow> int \<Rightarrow> string \<Rightarrow> int \<Rightarrow> edgeimg result"
  edgearr_close_slits ::
    "image \<Rightarrow> edgeimg \<Rightarrow> edgeimg \<Rightarrow> int \<Rightarrow> real \<Rightarrow> string \<Rightarrow> int \<Rightarrow> edgeimg result"
  edgearr_final_left_right ::
    "edgeimg \<Rightarrow> int \<Rightarrow> image option \<Rightarrow> (edgeimg \<times> int \<times> int) result"
  edgearr_tcrude :: "edgeimg \<Rightarrow> image option \<Rightarrow> int \<Rightarrow> real \<Rightarrow> (edgeimg \<times> 'tc) result"
  edgearr_mslit_sync :: "edgeimg \<Rightarrow> 'tc option \<Rightarrow> int \<Rightarrow> edgeimg result"
  add_user_edges ::
    "edgeimg \<Rightarrow> image option \<Rightarrow> 'tc option \<Rightarrow> real list list \<Rightarrow> edgeimg result"
  edgearr_ignore_orders :: "edgeimg \<Rightarrow> real \<Rightarrow> (edgeimg \<times> int \<times> int \<times> int \<times> int) result"
  fit_edges ::
    "edgeimg \<Rightarrow> int \<Rightarrow> int \<Rightarrow> image \<Rightarrow> image \<Rightarrow> bool \<Rightarrow> int \<Rightarrow> string \<Rightarrow> fit result"
  synchronize_edges ::
    "image \<Rightarrow> edgeimg \<Rightarrow> image \<Rightarrow> int \<Rightarrow> int \<Rightarrow> real list list \<Rightarrow> int \<Rightarrow> real list list \<Rightarrow>
     real list list \<Rightarrow> real list list \<Rightarrow> real list list \<Rightarrow>
     real list list \<Rightarrow> real list list \<Rightarrow> real list list \<Rightarrow>
     string \<Rightarrow> int \<Rightarrow> int list \<Rightarrow>
     (curves \<times> curves \<times> int list \<times> fit \<times> fit) result"
  pca_order_slit_edges ::
    "image \<Rightarrow> edgeimg \<Rightarrow> curves \<Rightarrow> curves \<Rightarrow> int list \<Rightarrow> real list list \<Rightarrow> real list list \<Rightarrow>
     image \<Rightarrow> curves \<Rightarrow> (real \<times> real) list list \<Rightarrow> string \<Rightarrow> int \<Rightarrow> int \<Rightarrow> int list \<Rightarrow>
     int list \<Rightarrow> (curves \<times> curves \<times> bool list) result"
  pca_pixel_slit_edges ::
    "image \<Rightarrow> edgeimg \<Rightarrow> real list list \<Rightarrow> real list list \<Rightarrow> real list list \<Rightarrow>
     real list list \<Rightarrow> real list list \<Rightarrow> real list list \<Rightarrow> real list list \<Rightarrow>
     real list list \<Rightarrow> curves \<Rightarrow> curves \<Rightarrow> image \<Rightarrow> string \<Rightarrow> int \<Rightarrow> int list \<Rightarrow>
     (curves \<times> curves \<times> bool list) result"
  phys_to_pix :: "curves \<Rightarrow> (real \<times> real) list list \<Rightarrow> int \<Rightarrow> int list list result"
  slit_pixels :: "curves \<Rightarrow> curves \<Rightarrow> nat \<times> nat \<Rightarrow> int \<Rightarrow> int list list result"
  ximg_and_edgemask ::
    "curves \<Rightarrow> curves \<Rightarrow> int list list \<Rightarrow> real \<times> real \<Rightarrow> (image \<times> bool list list) result"
  func_val :: "real list \<Rightarrow> real list \<Rightarrow> string \<Rightarrow> real \<Rightarrow> real \<Rightarrow> real list result"
  nan_as_int :: int

text \<open>
  Modelled from the spec: \<^verbatim>\<open>msgs.error\<close> (\<^verbatim>\<open>pypeit/msgs.py\<close> is not among the
  sources). The spec calls the outcome a non-recoverable failure that aborts the run and
  reports the case: the call raises, carrying the message.
\<close>

definition msgs_error :: "string \<Rightarrow> 'a result" where
  "msgs_error txt = Inl (PypeItError txt)"

subsection \<open>Detection, matching and assignment of the edges\<close>

definition append_step :: "string \<Rightarrow> 'tc TraceSlits \<Rightarrow> 'tc TraceSlits" where
  "append_step name st = st\<lparr>steps := steps st @ [name]\<rparr>"

definition edgearr_from_binarr_m :: "'tc core \<Rightarrow> 'tc TraceSlits \<Rightarrow> 'tc TraceSlits result" where
  "edgearr_from_binarr_m ext st =
     ebind (edgearr_from_binarr ext (binarr st) (binbpx st) (medrep (par st))
              (sobel_mode (par st)) (sigdetect (par st)) (number (par st)))
       (\<lambda>(sig, e). Inr (append_step ''_edgearr_from_binarr''
                          (st\<lparr>siglev := Some sig, edgearr := e\<rparr>)))"

text \<open>Indexing a Python list: a negative index counts from the end.\<close>

definition py_index :: "'a list \<Rightarrow> int \<Rightarrow> 'a result" where
  "py_index xs i =
     (let j = (if i < 0 then int (length xs) + i else i) in
      if j < 0 \<or> int (length xs) \<le> j then Inl IndexError else Inr (xs ! nat j))"

definition edgearr_single_slit :: "'tc core \<Rightarrow> 'tc TraceSlits \<Rightarrow> 'tc TraceSlits result" where
  "edgearr_single_slit ext st =
     (case det st of
        None \<Rightarrow> Inl TypeError
      | Some d \<Rightarrow>
          ebind (py_index (single (par st)) ((d - 1) * 2)) (\<lambda>le.
          ebind (py_index (single (par st)) ((d - 1) * 2 + 1)) (\<lambda>re.
          ebind (edgearr_from_user ext (shape (mstrace st)) le re d) (\<lambda>e.
            Inr (append_step ''_edgearr_single_slit''
                   (st\<lparr>edgearr := e, siglev := None\<rparr>))))))"

definition match_edges_m :: "'tc core \<Rightarrow> 'tc TraceSlits \<Rightarrow> 'tc TraceSlits result" where
  "match_edges_m ext st =
     ebind (match_edges ext (edgearr st) (ednum st)) (\<lambda>(e, lc, rc).
       if lc \<ge> ednum st \<or> rc \<ge> ednum st
       then msgs_error
              ''Found more edges than allowed by ednum. Set ednum to a larger number.''
       else Inr (append_step ''_match_edges'' (st\<lparr>edgearr := e, lcnt := lc, rcnt := rc\<rparr>)))"

definition add_left_right ::
  "'tc core \<Rightarrow> 'tc TraceSlits \<Rightarrow> (bool \<times> 'tc TraceSlits) result" where
  "add_left_right ext st =
     ebind (edgearr_add_left_right ext (edgearr st) (binarr st) (binbpx st)
              (lcnt st) (rcnt st) (ednum st))
       (\<lambda>(e, lc, rc).
          Inr (\<not> (lc = 0 \<and> rc = 0),
               append_step ''_add_left_right'' (st\<lparr>edgearr := e, lcnt := lc, rcnt := rc\<rparr>)))"

text \<open>
  \<^verbatim>\<open>edgearr[np.where(edgearr <= -2*ednum)] = -ednum\<close> and its mirror image for the
  right edges.
\<close>

definition relabel_left :: "int \<Rightarrow> edgeimg \<Rightarrow> edgeimg" where
  "relabel_left n e = map (map (\<lambda>v. if v \<le> - 2 * n then - n else v)) e"

definition relabel_right :: "int \<Rightarrow> edgeimg \<Rightarrow> edgeimg" where
  "relabel_right n e = map (map (\<lambda>v. if v \<ge> 2 * n then n else v)) e"

definition assign_edges :: "'tc core \<Rightarrow> 'tc TraceSlits \<Rightarrow> 'tc TraceSlits result" where
  "assign_edges ext st =
     ebind (if lcnt st = 1 then Inr (relabel_left (ednum st) (edgearr st))
            else assign_slits ext (binarr st) (edgearr st) (- 1)
                   (func (par st)) (polyorder (par st)))
       (\<lambda>e1.
     ebind (if rcnt st = 1 then Inr (relabel_right (ednum st) e1)
            else assign_slits ext (binarr st) e1 1 (func (par st)) (polyorder (par st)))
       (\<lambda>e2. Inr (append_step ''_assign_edges'' (st\<lparr>edgearr := e2\<rparr>))))"

definition maxgap_prep :: "'tc TraceSlits \<Rightarrow> 'tc TraceSlits result" where
  "maxgap_prep st =
     ebind (amax (concat (edgearr st))) (\<lambda>hi.
     ebind (amin (concat (edgearr st))) (\<lambda>lo.
       Inr (append_step ''_maxgap_prep''
              (st\<lparr>edgearrcp := edgearr st,
                  edgearr := map (map (\<lambda>v. if v < 0 then v + (1 + hi - lo) else v))
                               (edgearr st)\<rparr>))))"

definition maxgap_close ::
  "'tc core \<Rightarrow> real \<Rightarrow> 'tc TraceSlits \<Rightarrow> 'tc TraceSlits result" where
  "maxgap_close ext gap st =
     ebind (edgearr_close_slits ext (binarr st) (edgearr st) (edgearrcp st) (ednum st) gap
              (func (par st)) (polyorder (par st)))
       (\<lambda>e. Inr (append_step ''_maxgap_close'' (st\<lparr>edgearr := e\<rparr>)))"

definition final_left_right :: "'tc core \<Rightarrow> 'tc TraceSlits \<Rightarrow> 'tc TraceSlits result" where
  "final_left_right ext st =
     ebind (edgearr_final_left_right ext (edgearr st) (ednum st) (siglev st))
       (\<lambda>(e, lc, rc).
          Inr (append_step ''_final_left_right'' (st\<lparr>edgearr := e, lcnt := lc, rcnt := rc\<rparr>)))"

definition mslit_tcrude :: "'tc core \<Rightarrow> 'tc TraceSlits \<Rightarrow> 'tc TraceSlits result" where
  "mslit_tcrude ext st =
     ebind (edgearr_tcrude ext (edgearr st) (siglev st) (ednum st)
              (case maxshift (par st) of None \<Rightarrow> 15 / 100 | Some m \<Rightarrow> m))
       (\<lambda>(e, tc). Inr (append_step ''_mslit_tcrude'' (st\<lparr>edgearr := e, tc_dict := Some tc\<rparr>)))"

definition mslit_sync :: "'tc core \<Rightarrow> 'tc TraceSlits \<Rightarrow> 'tc TraceSlits result" where
  "mslit_sync ext st =
     ebind (edgearr_mslit_sync ext (edgearr st) (tc_dict st) (ednum st))
       (\<lambda>e. Inr (append_step ''_mslit_sync'' (st\<lparr>edgearr := e\<rparr>)))"

definition ignore_orders_m :: "'tc core \<Rightarrow> 'tc TraceSlits \<Rightarrow> 'tc TraceSlits result" where
  "ignore_orders_m ext st =
     ebind (edgearr_ignore_orders ext (edgearr st) (fracignore (par st)))
       (\<lambda>(e, l0, l1, r0, r1).
          Inr (append_step ''_ignore_orders''
                 (st\<lparr>edgearr := e, lmin := l0, lmax := l1, rmin := r0, rmax := r1\<rparr>)))"

definition reset_edgearr_ednum :: "'tc TraceSlits \<Rightarrow> 'tc TraceSlits result" where
  "reset_edgearr_ednum st =
     ebind (amax (concat (edgearr st))) (\<lambda>hi.
       if hi < ednum st
       then Inr (st\<lparr>edgearr :=
                    map (map (\<lambda>v. if v > 0 then v + (ednum st - 1) else v))
                      (map (map (\<lambda>v. if v < 0 then v - (ednum st - 1) else v)) (edgearr st))\<rparr>)
       else Inr st)"

definition set_lrminx :: "'tc TraceSlits \<Rightarrow> 'tc TraceSlits result" where
  "set_lrminx st =
     ebind (amax (filter (\<lambda>v. v < 0) (concat (edgearr st)))) (\<lambda>nhi.
     ebind (amin (filter (\<lambda>v. v < 0) (concat (edgearr st)))) (\<lambda>nlo.
     ebind (amin (filter (\<lambda>v. v > 0) (concat (edgearr st)))) (\<lambda>plo.
     ebind (amax (filter (\<lambda>v. v > 0) (concat (edgearr st)))) (\<lambda>phi.
       Inr (st\<lparr>lmin := - nhi, lmax := - nlo, rmin := plo, rmax := phi\<rparr>)))))"

subsection \<open>Fits, the longslit check, synchronisation and PCA\<close>

definition fit_edges_m :: "'tc core \<Rightarrow> string \<Rightarrow> 'tc TraceSlits \<Rightarrow> 'tc TraceSlits result" where
  "fit_edges_m ext side st =
     (if side = ''left''
      then ebind (fit_edges ext (edgearr st) (lmin st) (lmax st)
                    (map (map fst) (pixlocn st)) (map (map snd) (pixlocn st)) True
                    (polyorder (par st)) (func (par st)))
             (\<lambda>(c, n, d, w).
                Inr (append_step (''_fit_edges'' @ ''_'' @ side)
                       (st\<lparr>lcoeff := c, lnmbrarr := n, ldiffarr := d, lwghtarr := w\<rparr>)))
      else ebind (fit_edges ext (edgearr st) (rmin st) (rmax st)
                    (map (map fst) (pixlocn st)) (map (map snd) (pixlocn st)) False
                    (polyorder (par st)) (func (par st)))
             (\<lambda>(c, n, d, w).
                Inr (append_step (''_fit_edges'' @ ''_'' @ side)
                       (st\<lparr>rcoeff := c, rnmbrarr := n, rdiffarr := d, rwghtarr := w\<rparr>))))"

text \<open>
  \<^verbatim>\<open>pixlocn[:, 0, 0]\<close>: the first coordinate of the first pixel of every row; an
  IndexError when the rows are empty. \<^verbatim>\<open>plxbin[0, 0]\<close> and \<^verbatim>\<open>plxbin[-1, 0]\<close> are
  its first and last elements, an IndexError when there is no row.
\<close>

definition first_col :: "(real \<times> real) list list \<Rightarrow> real list result" where
  "first_col p = (if [] \<in> set p then Inl IndexError else Inr (map (\<lambda>row. fst (hd row)) p))"

text \<open>
  \<^verbatim>\<open>a[:, 0] = v\<close> for an array \<^verbatim>\<open>a = np.zeros((nrows, 1))\<close>: the array becomes the
  single column \<open>v\<close>, which must have \<^verbatim>\<open>nrows\<close> elements.
\<close>

definition single_column :: "nat \<Rightarrow> real list \<Rightarrow> curves result" where
  "single_column nrows v = (if length v = nrows then Inr [v] else Inl ValueError)"

definition chk_for_longslit ::
  "'tc core \<Rightarrow> 'tc TraceSlits \<Rightarrow> (bool \<times> 'tc TraceSlits) result" where
  "chk_for_longslit ext st =
     (if lmax st + 1 - lmin st = 1 \<and> rmax st + 1 - rmin st = 1
      then
        (if pixlocn st = [] then Inl IndexError
         else
           ebind (first_col (pixlocn st)) (\<lambda>xint.
           ebind (case lcoeff st of [] \<Rightarrow> Inl IndexError | c # _ \<Rightarrow> Inr c) (\<lambda>lc.
           ebind (func_val ext lc xint (func (par st)) (hd xint) (last xint)) (\<lambda>lv.
           ebind (single_column (fst (shape (mstrace st))) lv) (\<lambda>l.
           ebind (case rcoeff st of [] \<Rightarrow> Inl IndexError | c # _ \<Rightarrow> Inr c) (\<lambda>rc.
           ebind (func_val ext rc xint (func (par st)) (hd xint) (last xint)) (\<lambda>rv.
           ebind (single_column (fst (shape (mstrace st))) rv) (\<lambda>r.
             Inr (True, st\<lparr>lcen := Some l, rcen := Some r\<rparr>)))))))))
      else Inr (False, st))"

text \<open>An elementwise operation on two arrays of the same shape.\<close>

definition arr2 :: "(real \<Rightarrow> real \<Rightarrow> real) \<Rightarrow> curves \<Rightarrow> curves \<Rightarrow> curves result" where
  "arr2 f a b =
     (if map length a = map length b then Inr (map2 (map2 f) a b) else Inl ValueError)"

definition synchronize :: "'tc core \<Rightarrow> 'tc TraceSlits \<Rightarrow> 'tc TraceSlits result" where
  "synchronize ext st =
     ebind (synchronize_edges ext (binarr st) (edgearr st) (map (map fst) (pixlocn st))
              (lmin st) (lmax st) (lcoeff st) (rmin st) (rcoeff st)
              (lnmbrarr st) (ldiffarr st) (lwghtarr st)
              (rnmbrarr st) (rdiffarr st) (rwghtarr st)
              (func (par st)) (polyorder (par st)) (pcaextrap (par st)))
       (\<lambda>(lt, rt, g, (lc, ld, ln, lw), (rc, rd, rn, rw)).
          ebind (arr2 (\<lambda>a b. (1 / 2) * (a + b)) lt rt) (\<lambda>cen.
            Inr (append_step ''_synchronize''
                   (st\<lparr>lcent := lt, rcent := rt, gord := g,
                       lcoeff := lc, ldiffarr := ld, lnmbrarr := ln, lwghtarr := lw,
                       rcoeff := rc, rdiffarr := rd, rnmbrarr := rn, rwghtarr := rw,
                       slitcen := cen\<rparr>))))"

definition pca_order_slit_edges_m :: "'tc core \<Rightarrow> 'tc TraceSlits \<Rightarrow> 'tc TraceSlits result" where
  "pca_order_slit_edges_m ext st =
     ebind (pca_order_slit_edges ext (binarr st) (edgearr st) (lcent st) (rcent st) (gord st)
              (lcoeff st) (rcoeff st) (map (map fst) (pixlocn st)) (slitcen st) (pixlocn st)
              (func (par st)) (polyorder (par st)) (diffpolyorder (par st))
              (pcapar (par st)) (pcaextrap (par st)))
       (\<lambda>(l, r, x).
          Inr (append_step ''_pca_order_slit_edges''
                 (st\<lparr>lcen := Some l, rcen := Some r, extrapord := Some x\<rparr>)))"

definition pca_pixel_slit_edges_m :: "'tc core \<Rightarrow> 'tc TraceSlits \<Rightarrow> 'tc TraceSlits result" where
  "pca_pixel_slit_edges_m ext st =
     ebind (pca_pixel_slit_edges ext (binarr st) (edgearr st) (lcoeff st) (rcoeff st)
              (ldiffarr st) (rdiffarr st) (lnmbrarr st) (rnmbrarr st)
              (lwghtarr st) (rwghtarr st) (lcent st) (rcent st)
              (map (map fst) (pixlocn st)) (func (par st)) (polyorder (par st))
              (pcapar (par st)))
       (\<lambda>(l, r, x).
          Inr (append_step ''_pca_pixel_slit_edges''
                 (st\<lparr>lcen := Some l, rcen := Some r, extrapord := Some x\<rparr>)))"

text \<open>
  Without PCA, the slits that have a zero in their left or their right trace are
  masked (\<^verbatim>\<open>np.all(..., axis=1) == False\<close>), and the others are kept in their order.
\<close>

definition unmasked_orders :: "curves \<Rightarrow> curves \<Rightarrow> nat list" where
  "unmasked_orders lt rt =
     filter (\<lambda>k. list_all (\<lambda>x. x \<noteq> 0) (lt ! k) \<and> list_all (\<lambda>x. x \<noteq> 0) (rt ! k))
       [0..<length lt]"

definition pca :: "'tc core \<Rightarrow> 'tc TraceSlits \<Rightarrow> 'tc TraceSlits result" where
  "pca ext st =
     (if pcatype (par st) = ''order'' then pca_order_slit_edges_m ext st
      else if pcatype (par st) = ''pixel'' then pca_pixel_slit_edges_m ext st
      else if length (lcent st) \<noteq> length (rcent st) then Inl ValueError
      else Inr (st\<lparr>lcen := Some (map ((!) (lcent st)) (unmasked_orders (lcent st) (rcent st))),
                   rcen := Some (map ((!) (rcent st)) (unmasked_orders (lcent st) (rcent st))),
                   extrapord :=
                     Some (replicate (length (unmasked_orders (lcent st) (rcent st))) False)\<rparr>))"

subsection \<open>Pixel arrays and the dictionary of results\<close>

text \<open>
  \<^verbatim>\<open>(rcen-lcen).mean(0).astype(np.int)\<close> for one slit: the mean of the widths,
  truncated towards zero; the mean of no row at all is NaN.
\<close>

definition mean_int :: "int \<Rightarrow> real list \<Rightarrow> int" where
  "mean_int nan w =
     (if w = [] then nan
      else (let m = sum_list w / real (length w) in if m < 0 then \<lceil>m\<rceil> else \<lfloor>m\<rfloor>))"

definition make_pixel_arrays :: "'tc core \<Rightarrow> 'tc TraceSlits \<Rightarrow> 'tc TraceSlits result" where
  "make_pixel_arrays ext st =
     (case (if lcen_tweak st \<noteq> None then (lcen_tweak st, rcen_tweak st)
            else (lcen st, rcen st)) of
        (Some l, Some r) \<Rightarrow>
          ebind (arr2 (\<lambda>a b. (1 / 2) * (a + b)) l r) (\<lambda>mid.
          ebind (phys_to_pix ext mid (pixlocn st) 1) (\<lambda>pc.
          ebind (arr2 (\<lambda>a b. a - b) r l) (\<lambda>w.
          ebind (phys_to_pix ext l (pixlocn st) 1) (\<lambda>lp.
          ebind (phys_to_pix ext r (pixlocn st) 1) (\<lambda>rp.
          ebind (slit_pixels ext l r (shape (mstrace st)) (pad (par st))) (\<lambda>sp.
          ebind (ximg_and_edgemask ext l r sp (trim (par st))) (\<lambda>(xi, em).
            Inr (st\<lparr>pixcen := Some pc, pixwid := Some (map (mean_int (nan_as_int ext)) w),
                    lordpix := Some lp, rordpix := Some rp, slitpix := Some sp,
                    ximg := Some xi, edge_mask := Some em\<rparr>))))))))
      | _ \<Rightarrow> Inl TypeError)"

definition fill_tslits_dict :: "'tc TraceSlits \<Rightarrow> (tslits \<times> 'tc TraceSlits) result" where
  "fill_tslits_dict st =
     (case (ximg st, edge_mask st) of
        (Some xi, Some em) \<Rightarrow>
          (let d = \<lparr>d_lcen = (if lcen_tweak st \<noteq> None then lcen_tweak st else lcen st),
                    d_rcen = (if lcen_tweak st \<noteq> None then rcen_tweak st else rcen st),
                    d_pixcen = pixcen st, d_pixwid = pixwid st,
                    d_lordpix = lordpix st, d_rordpix = rordpix st,
                    d_extrapord = extrapord st, d_slitpix = slitpix st,
                    d_ximg = xi, d_edge_mask = em\<rparr>
           in Inr (d, st\<lparr>tslits_dict := Some d\<rparr>))
      | _ \<Rightarrow> Inl AttributeError)"

subsection \<open>add_user_slits and run\<close>

text \<open>
  With \<^verbatim>\<open>run_to_finish\<close>, the last statement of the branch is
  \<^verbatim>\<open>self._trim_slits(plate_scale = plate_scale)\<close>. The method has no parameter or local
  variable \<^verbatim>\<open>plate_scale\<close>, and the module defines and imports no such name: evaluating
  the argument is a NameError, raised before \<^verbatim>\<open>_trim_slits\<close> is entered.
\<close>

definition add_user_slits ::
  "'tc core \<Rightarrow> real list list \<Rightarrow> bool \<Rightarrow> 'tc TraceSlits \<Rightarrow> 'tc TraceSlits result" where
  "add_user_slits ext user_slits run_to_finish st =
     ebind (reset_edgearr_ednum st) (\<lambda>s1.
     ebind (add_user_edges ext (edgearr s1) (siglev s1) (tc_dict s1) user_slits) (\<lambda>e.
     ebind (if run_to_finish
            then ebind (set_lrminx (s1\<lparr>edgearr := e\<rparr>)) (\<lambda>s2.
                 ebind (fit_edges_m ext ''left'' s2) (\<lambda>s3.
                 ebind (fit_edges_m ext ''right'' s3) (\<lambda>s4.
                 ebind (synchronize ext s4) (\<lambda>s5.
                 ebind (pca ext s5) (\<lambda>s6. Inl NameError)))))
            else Inr (s1\<lparr>edgearr := e\<rparr>))
       (\<lambda>s. Inr (append_step ''add_user_slits'' s))))"

text \<open>
  \<^verbatim>\<open>run\<close> in three parts. The first (up to \<^verbatim>\<open>any_slits = self._add_left_right()\<close>)
  makes the edge image, numbers the groups and adds a missing left or right edge.
\<close>

definition run_detect :: "'tc core \<Rightarrow> 'tc TraceSlits \<Rightarrow> (bool \<times> 'tc TraceSlits) result" where
  "run_detect ext st =
     ebind (if length (single (par st)) > 0
            then ebind (edgearr_single_slit ext st) (\<lambda>s. Inr (s\<lparr>user_set := Some True\<rparr>))
            else ebind (edgearr_from_binarr_m ext st) (\<lambda>s. Inr (s\<lparr>user_set := Some False\<rparr>)))
       (\<lambda>s1. ebind (match_edges_m ext s1) (\<lambda>s2. add_left_right ext s2))"

text \<open>The second part: from the test of \<^verbatim>\<open>maxgap\<close> to the two fits.\<close>

definition run_edges ::
  "'tc core \<Rightarrow> bool \<Rightarrow> bool \<Rightarrow> real list list option \<Rightarrow> 'tc TraceSlits \<Rightarrow>
   'tc TraceSlits result" where
  "run_edges ext arms ignore_orders user_slits st =
     ebind (if maxgap (par st) \<noteq> None then maxgap_prep st else Inr st) (\<lambda>s1.
     ebind (assign_edges ext s1) (\<lambda>s2.
     ebind (case maxgap (par s2) of None \<Rightarrow> Inr s2 | Some g \<Rightarrow> maxgap_close ext g s2) (\<lambda>s3.
     ebind (if user_set s3 = Some True then Inr s3 else final_left_right ext s3) (\<lambda>s4.
     ebind (if arms then ebind (mslit_tcrude ext s4) (mslit_sync ext) else Inr s4) (\<lambda>s5.
     ebind (case user_slits of None \<Rightarrow> Inr s5 | Some u \<Rightarrow> add_user_slits ext u False s5) (\<lambda>s6.
     ebind (if ignore_orders then ignore_orders_m ext s6 else Inr s6) (\<lambda>s7.
     ebind (set_lrminx s7) (\<lambda>s8.
     ebind (fit_edges_m ext ''left'' s8) (\<lambda>s9.
       fit_edges_m ext ''right'' s9)))))))))"

text \<open>The third part: from the longslit check to the dictionary that is returned.\<close>

definition run_finish ::
  "'tc core \<Rightarrow> bool \<Rightarrow> real option \<Rightarrow> 'tc TraceSlits \<Rightarrow> (tslits \<times> 'tc TraceSlits) result" where
  "run_finish ext arms plate_scale st =
     ebind (chk_for_longslit ext st) (\<lambda>(done, s1).
     ebind (if done then Inr (s1\<lparr>extrapord := Some [False]\<rparr>)
            else ebind (synchronize ext s1) (\<lambda>s2.
                 ebind (pca ext s2) (\<lambda>s3. trim_slits s3 arms plate_scale))) (\<lambda>s4.
     ebind (make_pixel_arrays ext s4) (\<lambda>s5. fill_tslits_dict s5)))"

definition run ::
  "'tc core \<Rightarrow> bool \<Rightarrow> bool \<Rightarrow> real list list option \<Rightarrow> real option \<Rightarrow> 'tc TraceSlits \<Rightarrow>
   (tslits option \<times> 'tc TraceSlits) result" where
  "run ext arms ignore_orders user_slits plate_scale st =
     ebind (run_detect ext st) (\<lambda>(any_slits, s1).
       if \<not> any_slits then Inr (None, s1)
       else ebind (run_edges ext arms ignore_orders user_slits s1) (\<lambda>s2.
            ebind (run_finish ext arms plate_scale s2) (\<lambda>(d, s3). Inr (Some d, s3))))"

subsection \<open>make_binarr\<close>

text \<open>
  Modelled from the spec: \<^verbatim>\<open>ndimage.uniform_filter\<close> (scipy is not among the
  sources), for a window of \<open>w\<close> rows and one column and the mode \<^verbatim>\<open>'mirror'\<close>.
  The spec describes the step as a moving average along the spectral axis only, with
  mirrored boundary handling: every pixel becomes the mean of the \<open>w\<close> pixels of its
  column around it, \<open>w div 2\<close> rows before it being the first of them, and a row
  beyond the first or the last row of the image is the row at the same distance on the
  other side of that row (\<open>mirror_index\<close>). The arithmetic is that of the reals.
\<close>

definition mirror_index :: "nat \<Rightarrow> int \<Rightarrow> nat" where
  "mirror_index n p =
     (if n \<le> 1 then 0
      else (let q = p mod (2 * int n - 2) in
            if q < int n then nat q else nat (2 * int n - 2 - q)))"

definition uniform_filter_rows :: "nat \<Rightarrow> image \<Rightarrow> image" where
  "uniform_filter_rows w a =
     map (\<lambda>i. map (\<lambda>j. (\<Sum>k\<leftarrow>[0..<w].
                          a ! mirror_index (length a) (int i - int (w div 2) + int k) ! j)
                       / real w)
                [0..<length (a ! i)])
       [0..<length a]"

text \<open>
  \<^verbatim>\<open>make_binarr\<close> calls the filter with \<^verbatim>\<open>size=(3, 1)\<close> and
  \<^verbatim>\<open>mode='mirror'\<close>, stores the result and logs the step.
\<close>

definition make_binarr :: "'tc TraceSlits \<Rightarrow> 'tc TraceSlits" where
  "make_binarr st =
     append_step ''make_binarr'' (st\<lparr>binarr := uniform_filter_rows 3 (mstrace st)\<rparr>)"

subsection \<open>Example instances\<close>

text \<open>
  A parameter set and an instance on a detector of three rows and fifty columns, for
  evaluating the methods on concrete inputs. \<open>trim_example\<close> holds four slits as they
  may reach \<^verbatim>\<open>_trim_slits\<close>: a regular one, one beyond the right end of the detector,
  a narrow one, and one whose left trace crosses its right trace in the last row.
\<close>

definition example_par :: tspar where
  "example_par =
     \<lparr>single = [], maxgap = None, pcatype = ''pixel'', func = ''legendre'', polyorder = 3,
      diffpolyorder = 2, pcapar = [3, 2, 1, 0], pcaextrap = [0, 0], medrep = 0,
      sobel_mode = ''nearest'', sigdetect = 20, number = - 1, fracignore = 1 / 100,
      min_slit_width = 6, pad = 0, trim = (3, 3), maxshift = Some (15 / 100)\<rparr>"

definition example_state :: "unit TraceSlits" where
  "example_state =
     \<lparr>mstrace = replicate 3 (replicate 50 0),
      pixlocn = [[(0, 0), (0, 1)], [(1, 0), (1, 1)], [(2, 0), (2, 1)]],
      par = example_par, det = Some 1, ednum = 100000,
      binbpx = replicate 3 (replicate 50 0),
      lcen = None, rcen = None, tc_dict = None, edgearr = [], edgearrcp = [],
      siglev = None, steps = [''make_binarr''], extrapord = None,
      pixcen = None, pixwid = None, lordpix = None, rordpix = None, slitpix = None,
      ximg = None, edge_mask = None, lcen_tweak = None, rcen_tweak = None,
      binarr = replicate 3 (replicate 50 0), user_set = None,
      lmin = 0, lmax = 0, rmin = 0, rmax = 0, lcnt = 0, rcnt = 0,
      lcoeff = [], lnmbrarr = [], ldiffarr = [], lwghtarr = [],
      rcoeff = [], rnmbrarr = [], rdiffarr = [], rwghtarr = [],
      lcent = [], rcent = [], gord = [], slitcen = [], tslits_dict = None\<rparr>"

definition trim_example :: "unit TraceSlits" where
  "trim_example =
     example_state
       \<lparr>lcen := Some [[10, 10, 10], [60, 60, 60], [20, 20, 20], [30, 31, 45]],
        rcen := Some [[40, 40, 40], [90, 90, 90], [22, 22, 22], [44, 44, 44]]\<rparr>"

text \<open>
  Stand-ins for the functions the class calls, for the same purpose. The matcher finds
  no group and no edge is added; the synchronisation returns the four slits of
  \<open>trim_example\<close>; \<^verbatim>\<open>func_val\<close> evaluates a polynomial of degree zero; the pixel
  functions return empty arrays.
\<close>

definition example_core :: "unit core" where
  "example_core =
     \<lparr>edgearr_from_binarr = (\<lambda>b x m s g n. Inr (replicate 3 (replicate 50 0), [[0, 0], [0, 0]])),
      edgearr_from_user = (\<lambda>sh l r d. Inr [[- 1, 1], [- 1, 1]]),
      match_edges = (\<lambda>e n. Inr (e, 0, 0)),
      edgearr_add_left_right = (\<lambda>e b x lc rc n. Inr (e, lc, rc)),
      assign_slits = (\<lambda>b e lor f p. Inr e),
      edgearr_close_slits = (\<lambda>b e c n g f p. Inr e),
      edgearr_final_left_right = (\<lambda>e n s. Inr (e, 1, 1)),
      edgearr_tcrude = (\<lambda>e s n m. Inr (e, ())),
      edgearr_mslit_sync = (\<lambda>e t n. Inr e),
      add_user_edges = (\<lambda>e s t u. Inr e),
      edgearr_ignore_orders = (\<lambda>e f. Inr (e, 1, 1, 1, 1)),
      fit_edges = (\<lambda>e lo hi x y left p f. Inr ([[if left then 10 else 40]], [], [], [])),
      synchronize_edges =
        (\<lambda>b e x l0 l1 lc r0 rc ln ld lw rn rd rw f p ex.
           Inr ([[10, 10, 10], [60, 60, 60], [20, 20, 20], [30, 31, 45]],
                [[40, 40, 40], [90, 90, 90], [22, 22, 22], [44, 44, 44]],
                [], (lc, ld, ln, lw), (rc, rd, rn, rw))),
      pca_order_slit_edges = (\<lambda>b e lt rt g lc rc x c pl f p d ofit ex. Inr (lt, rt, [])),
      pca_pixel_slit_edges = (\<lambda>b e lc rc ld rd ln rn lw rw lt rt x f p ofit. Inr (lt, rt, [])),
      phys_to_pix = (\<lambda>c pl ax. Inr []),
      slit_pixels = (\<lambda>l r sh pd. Inr []),
      ximg_and_edgemask = (\<lambda>l r sp t. Inr ([], [])),
      func_val = (\<lambda>c x f lo hi. Inr (map (\<lambda>u. hd c) x)),
      nan_as_int = 0\<rparr>"

text \<open>
  An instance after the two fits, with several groups on each side and without PCA
  (\<open>sync_example\<close>), and one with a single group on each side (\<open>longslit_example\<close>).
\<close>

definition sync_example :: "unit TraceSlits" where
  "sync_example =
     example_state
       \<lparr>par := example_par\<lparr>pcatype := ''off''\<rparr>,
        lmin := 100000, lmax := 100003, rmin := 100000, rmax := 100003\<rparr>"

definition longslit_example :: "unit TraceSlits" where
  "longslit_example =
     example_state
       \<lparr>lmin := 100000, lmax := 100000, rmin := 100000, rmax := 100000,
        lcoeff := [[10]], rcoeff := [[40]]\<rparr>"

text \<open>
  An instance with a budget of three edge identifiers on which the matcher reports three
  groups of left edges (\<open>budget_core\<close>, \<open>budget_state\<close>), and one with a single
  group on each side whose edge image still carries the provisional labels
  (\<open>assign_example\<close>).
\<close>

definition budget_core :: "unit core" where
  "budget_core = example_core\<lparr>match_edges := (\<lambda>e n. Inr (e, 3, 0))\<rparr>"

definition budget_state :: "unit TraceSlits" where
  "budget_state = example_state\<lparr>ednum := 3, edgearr := [[0, 0], [0, 0]]\<rparr>"

definition assign_example :: "unit TraceSlits" where
  "assign_example =
     example_state\<lparr>lcnt := 1, rcnt := 1,
                   edgearr := [[- 200000, 0, 200000], [- 200001, 5, 200003]]\<rparr>"

text \<open>
  An instance that holds two slits and no pixel arrays yet (\<open>pixel_example\<close>), and
  one whose edge image has a left and a right edge with final labels, as after a full
  run (\<open>user_example\<close>).
\<close>

definition pixel_example :: "unit TraceSlits" where
  "pixel_example =
     example_state\<lparr>lcen := Some [[10, 10, 10], [30, 31, 45]],
                   rcen := Some [[40, 40, 40], [44, 44, 44]]\<rparr>"

definition user_example :: "unit TraceSlits" where
  "user_example = example_state\<lparr>edgearr := [[- 1, 1], [- 1, 1]]\<rparr>"

text \<open>
  Stand-ins whose matcher finds one left and one right edge (\<open>longslit_core\<close>) and
  whose synchronisation returns no slit at all (\<open>empty_core\<close>), and an instance
  whose trace arrays have no column (\<open>no_slit_example\<close>).
\<close>

definition longslit_core :: "unit core" where
  "longslit_core = example_core\<lparr>match_edges := (\<lambda>e n. Inr ([[- 1, 1], [- 1, 1]], 1, 1))\<rparr>"

definition empty_core :: "unit core" where
  "empty_core =
     example_core
       \<lparr>synchronize_edges :=
          (\<lambda>b e x l0 l1 lc r0 rc ln ld lw rn rd rw f p ex.
             Inr ([], [], [], (lc, ld, ln, lw), (rc, rd, rn, rw)))\<rparr>"

definition no_slit_example :: "unit TraceSlits" where
  "no_slit_example = example_state\<lparr>lcen := Some [], rcen := Some []\<rparr>"

text \<open>An instance with a trace image of three rows and two columns.\<close>

definition smooth_example :: "unit TraceSlits" where
  "smooth_example = example_state\<lparr>mstrace := [[1, 2], [4, 8], [7, 5]], steps := []\<rparr>"

section \<open>Properties\<close>

subsection \<open>Results, extrema and the median\<close>

lemma ebind_Inr_iff: "ebind m f = Inr y \<longleftrightarrow> (\<exists>x. m = Inr x \<and> f x = Inr y)"
  by (cases m) (simp_all add: ebind_def)

lemma fold_min_Min: "fold min r x = Min (insert x (set r))"
  using Min.set_eq_fold [of x r] by simp

lemma fold_max_Max: "fold max r x = Max (insert x (set r))"
  using Max.set_eq_fold [of x r] by simp

lemma amin_Inr: "amin xs = Inr m \<longleftrightarrow> xs \<noteq> [] \<and> m = Min (set xs)"
  by (cases xs) (auto simp: amin_def fold_min_Min)

lemma amax_Inr: "amax xs = Inr m \<longleftrightarrow> xs \<noteq> [] \<and> m = Max (set xs)"
  by (cases xs) (auto simp: amax_def fold_max_Max)

lemma shape_replicate: "0 < n \<Longrightarrow> shape (replicate n r) = (n, length r)"
  by (cases n) (simp_all add: shape_def)

lemma sort_Nil_iff: "sort xs = [] \<longleftrightarrow> xs = []"
  by (metis length_sort length_0_conv)

lemma median_None: "median xs = None \<longleftrightarrow> xs = []"
  unfolding median_def Let_def by (simp del: not_None_eq)

lemma median_nonempty:
  "xs \<noteq> [] \<Longrightarrow>
   median xs = Some (if odd (length xs) then sort xs ! (length xs div 2)
                     else (sort xs ! (length xs div 2 - 1) + sort xs ! (length xs div 2)) / 2)"
  by (simp add: median_def Let_def sort_Nil_iff)

text \<open>A positive median needs a positive element.\<close>

lemma median_pos:
  assumes "median xs = Some m" and "0 < m"
  shows "\<exists>x\<in>set xs. 0 < x"
proof -
  let ?s = "sort xs" and ?n = "length xs"
  from assms(1) have ne: "xs \<noteq> []" using median_None [of xs] by auto
  then have n: "0 < ?n" by simp
  have nth: "?s ! i \<in> set xs" if "i < ?n" for i
    using that nth_mem [of i ?s] by simp
  show ?thesis
  proof (cases "odd ?n")
    case True
    with assms(1) median_nonempty [OF ne] have "m = ?s ! (?n div 2)" by simp
    moreover have "?n div 2 < ?n" using n by simp
    ultimately show ?thesis using nth assms(2) by blast
  next
    case False
    with assms(1) median_nonempty [OF ne]
    have m: "m = (?s ! (?n div 2 - 1) + ?s ! (?n div 2)) / 2" by simp
    have "?n div 2 - 1 < ?n" "?n div 2 < ?n" using n by arith+
    then have "?s ! (?n div 2 - 1) \<in> set xs" "?s ! (?n div 2) \<in> set xs" using nth by blast+
    moreover from m assms(2) have "0 < ?s ! (?n div 2 - 1) \<or> 0 < ?s ! (?n div 2)" by auto
    ultimately show ?thesis by blast
  qed
qed

lemma map2_minus_pos:
  assumes "x \<in> set (map2 (-) r l)" and "0 < (x::real)"
  shows "\<exists>i. i < length l \<and> i < length r \<and> l ! i < r ! i"
proof -
  from assms(1) obtain i where "i < length (map2 (-) r l)" "map2 (-) r l ! i = x"
    by (auto simp: in_set_conv_nth)
  with assms(2) show ?thesis by (intro exI [of _ i]) auto
qed

subsection \<open>The loop of _trim_slits\<close>

lemma trim_mask_Inr:
  "trim_mask L R n tss ps minw ks = Inr ms \<Longrightarrow>
   length ms = length ks \<and> (\<forall>i<length ks. slit_masked L R n tss ps minw (ks ! i) = Inr (ms ! i))"
proof (induction ks arbitrary: ms)
  case Nil
  then show ?case by simp
next
  case (Cons k ks)
  from Cons.prems obtain m ms' where
    m: "slit_masked L R n tss ps minw k = Inr m" and
    ms': "trim_mask L R n tss ps minw ks = Inr ms'" and
    eq: "ms = m # ms'"
    by (auto simp: ebind_Inr_iff)
  from Cons.IH [OF ms'] show ?case
    using m eq by (auto simp: nth_Cons split: nat.splits)
qed

lemma trim_mask_total:
  "(\<And>k. k \<in> set ks \<Longrightarrow> \<exists>b. slit_masked L R n tss ps minw k = Inr b) \<Longrightarrow>
   \<exists>ms. trim_mask L R n tss ps minw ks = Inr ms"
proof (induction ks)
  case Nil
  then show ?case by simp
next
  case (Cons k ks)
  then obtain b where "slit_masked L R n tss ps minw k = Inr b" by auto
  moreover from Cons obtain ms where "trim_mask L R n tss ps minw ks = Inr ms" by auto
  ultimately show ?case by (simp add: ebind_def)
qed

lemma sorted_wok: "sorted_wrt (<) (wok_of ms)"
  unfolding wok_of_def by (rule sorted_wrt_filter) simp

lemma set_wok: "set (wok_of ms) = {k. k < length ms \<and> \<not> ms ! k}"
  unfolding wok_of_def by auto

lemma length_wok: "length (wok_of ms) \<le> length ms"
  unfolding wok_of_def by (metis length_filter_le length_upt minus_nat.diff_0)

text \<open>What one iteration of the loop decides, when it raises nothing.\<close>

lemma slit_masked_Inr:
  "slit_masked L R n tss ps minw k = Inr b \<Longrightarrow>
   L ! k \<noteq> [] \<and>
   (b \<longleftrightarrow>
      real n < Min (set (L ! k))
    \<or> (\<exists>Rs. R = Some Rs \<and> k < length Rs \<and> Rs ! k \<noteq> [] \<and> Max (set (Rs ! k)) < 0)
    \<or> (tss \<and> (\<exists>Rs p m. R = Some Rs \<and> k < length Rs \<and> ps = Some p \<and>
           median (map2 (-) (Rs ! k) (L ! k)) = Some m \<and> m * p < minw))) \<and>
   (\<not> b \<longrightarrow> (\<exists>Rs. R = Some Rs \<and> k < length Rs \<and> Rs ! k \<noteq> [])) \<and>
   (tss \<longrightarrow> (\<exists>Rs p. R = Some Rs \<and> k < length Rs \<and> ps = Some p \<and>
           length (Rs ! k) = length (L ! k)))"
  unfolding slit_masked_def slit_off_detector_def slit_too_short_def rcol_def col_def sub1_def
  by (auto simp: ebind_Inr_iff amin_Inr amax_Inr split: if_splits option.splits)

lemma trim_slits_Inr:
  assumes "trim_slits st tss ps = Inr st'"
  shows "\<exists>L R ms. lcen st = Some L \<and> rcen st = Some R \<and>
           trim_mask L (Some R) (snd (shape (mstrace st))) tss ps (min_slit_width (par st))
             [0..<length L] = Inr ms \<and>
           st' = st\<lparr>lcen := Some (map ((!) L) (wok_of ms)),
                    rcen := Some (map ((!) R) (wok_of ms)),
                    steps := steps st @ [''_trim_slits'']\<rparr>"
  using assms unfolding trim_slits_def
  by (auto simp: ebind_Inr_iff split: option.splits)

text \<open>
  The slits that \<^verbatim>\<open>_trim_slits\<close> keeps are those on which every test of the loop is
  false, in their order; the others fail one test.
\<close>

lemma trim_slits_kept:
  assumes "trim_slits st tss ps = Inr st'" and "lcen st = Some L" and "rcen st = Some R"
  shows "\<exists>ks. st' = st\<lparr>lcen := Some (map ((!) L) ks), rcen := Some (map ((!) R) ks),
                        steps := steps st @ [''_trim_slits'']\<rparr> \<and>
               sorted_wrt (<) ks \<and> length ks \<le> length L \<and>
               (\<forall>k\<in>set ks.
                  k < length L \<and> k < length R \<and> L ! k \<noteq> [] \<and> R ! k \<noteq> [] \<and>
                  Min (set (L ! k)) \<le> real (snd (shape (mstrace st))) \<and>
                  0 \<le> Max (set (R ! k)) \<and>
                  (tss \<longrightarrow> (\<exists>p m. ps = Some p \<and>
                     median (map2 (-) (R ! k) (L ! k)) = Some m \<and>
                     min_slit_width (par st) \<le> m * p))) \<and>
               (\<forall>k<length L. k \<notin> set ks \<longrightarrow>
                  real (snd (shape (mstrace st))) < Min (set (L ! k))
                \<or> (k < length R \<and> R ! k \<noteq> [] \<and> Max (set (R ! k)) < 0)
                \<or> (tss \<and> (\<exists>p m. ps = Some p \<and> k < length R \<and>
                     median (map2 (-) (R ! k) (L ! k)) = Some m \<and>
                     m * p < min_slit_width (par st))))"
proof -
  from trim_slits_Inr [OF assms(1)] assms(2,3) obtain ms where
    ms: "trim_mask L (Some R) (snd (shape (mstrace st))) tss ps (min_slit_width (par st))
           [0..<length L] = Inr ms" and
    st': "st' = st\<lparr>lcen := Some (map ((!) L) (wok_of ms)),
                    rcen := Some (map ((!) R) (wok_of ms)),
                    steps := steps st @ [''_trim_slits'']\<rparr>"
    by auto
  from trim_mask_Inr [OF ms] have len: "length ms = length L" and
    body: "\<And>k. k < length L \<Longrightarrow>
      slit_masked L (Some R) (snd (shape (mstrace st))) tss ps (min_slit_width (par st)) k
        = Inr (ms ! k)"
    by auto
  have kept: "k < length L \<and> k < length R \<and> L ! k \<noteq> [] \<and> R ! k \<noteq> [] \<and>
       Min (set (L ! k)) \<le> real (snd (shape (mstrace st))) \<and> 0 \<le> Max (set (R ! k)) \<and>
       (tss \<longrightarrow> (\<exists>p m. ps = Some p \<and> median (map2 (-) (R ! k) (L ! k)) = Some m \<and>
                  min_slit_width (par st) \<le> m * p))"
    if "k \<in> set (wok_of ms)" for k
  proof -
    from that len have k: "k < length L" and nm: "\<not> ms ! k" by (auto simp: set_wok)
    note c = slit_masked_Inr [OF body [OF k]]
    from c nm have r: "k < length R" "L ! k \<noteq> []" "R ! k \<noteq> []" by auto
    from c nm r have "\<not> real (snd (shape (mstrace st))) < Min (set (L ! k))"
      and "\<not> Max (set (R ! k)) < 0" by blast+
    then have off: "Min (set (L ! k)) \<le> real (snd (shape (mstrace st)))"
      "0 \<le> Max (set (R ! k))" by linarith+
    have "\<exists>p m. ps = Some p \<and> median (map2 (-) (R ! k) (L ! k)) = Some m \<and>
                  min_slit_width (par st) \<le> m * p" if tss
    proof -
      from c that obtain p where p: "ps = Some p" and l: "length (R ! k) = length (L ! k)"
        by auto
      with r have "map2 (-) (R ! k) (L ! k) \<noteq> []" by (cases "R ! k"; cases "L ! k") auto
      then obtain m where m: "median (map2 (-) (R ! k) (L ! k)) = Some m"
        using median_None by (cases "median (map2 (-) (R ! k) (L ! k))") auto
      from c nm that p m r have "\<not> m * p < min_slit_width (par st)" by blast
      then have "min_slit_width (par st) \<le> m * p" by linarith
      with p m show ?thesis by blast
    qed
    with k r off show ?thesis by blast
  qed
  have dropped: "real (snd (shape (mstrace st))) < Min (set (L ! k))
       \<or> (k < length R \<and> R ! k \<noteq> [] \<and> Max (set (R ! k)) < 0)
       \<or> (tss \<and> (\<exists>p m. ps = Some p \<and> k < length R \<and>
            median (map2 (-) (R ! k) (L ! k)) = Some m \<and> m * p < min_slit_width (par st)))"
    if "k < length L" "k \<notin> set (wok_of ms)" for k
  proof -
    from that len have "ms ! k" by (auto simp: set_wok)
    with slit_masked_Inr [OF body [OF that(1)]] show ?thesis by auto
  qed
  have "length (wok_of ms) \<le> length L"
    using len length_wok [of ms] by simp
  with st' kept dropped sorted_wok [of ms] show ?thesis
    by (intro exI [of _ "wok_of ms"]) blast
qed

text \<open>
  On two arrays of one shape with at least one row, and with a plate scale when the
  short slits are cut, \<^verbatim>\<open>_trim_slits\<close> raises nothing.
\<close>

lemma trim_slits_total:
  assumes "lcen st = Some L" and "rcen st = Some R" and "length R = length L"
    and "\<forall>k<length L. L ! k \<noteq> [] \<and> length (R ! k) = length (L ! k)"
    and "tss \<longrightarrow> ps \<noteq> None"
  shows "\<exists>st'. trim_slits st tss ps = Inr st'"
proof -
  have "\<exists>b. slit_masked L (Some R) (snd (shape (mstrace st))) tss ps
               (min_slit_width (par st)) k = Inr b"
    if "k \<in> set [0..<length L]" for k
  proof -
    from that assms have k: "k < length L" "k < length R" "L ! k \<noteq> []" "R ! k \<noteq> []"
      "length (R ! k) = length (L ! k)" by auto
    then obtain a as c cs where "L ! k = a # as" "R ! k = c # cs"
      by (metis list.exhaust)
    with k assms(5) show ?thesis
      unfolding slit_masked_def slit_off_detector_def slit_too_short_def rcol_def col_def
        sub1_def amin_def amax_def ebind_def
      by (auto split: option.splits)
  qed
  then obtain ms where "trim_mask L (Some R) (snd (shape (mstrace st))) tss ps
      (min_slit_width (par st)) [0..<length L] = Inr ms"
    using trim_mask_total by blast
  then show ?thesis
    using assms(1,2) by (simp add: trim_slits_def ebind_def)
qed

lemma trim_example_eval:
  "trim_slits trim_example True (Some 1) =
     Inr (trim_example\<lparr>lcen := Some [[10, 10, 10], [30, 31, 45]],
                       rcen := Some [[40, 40, 40], [44, 44, 44]],
                       steps := [''make_binarr'', ''_trim_slits'']\<rparr>)"
  by (simp add: trim_slits_def trim_example_def example_state_def example_par_def
      shape_replicate
      slit_masked_def slit_off_detector_def slit_too_short_def rcol_def col_def sub1_def
      amin_def amax_def ebind_def wok_of_def median_def Let_def)

text \<open>
  C3. Trimming never adds a slit. When it returns, the slits it keeps are a
  subsequence of the slits it was given, in their order and with their traces
  unchanged; every slit kept has a left trace whose minimum does not exceed the number
  of columns of the detector, a right trace whose maximum is not below zero and, when
  the short slits are cut, a median width times the plate scale of at least
  \<^verbatim>\<open>min_slit_width\<close>; every slit dropped fails one of the three tests. On two trace
  arrays of one shape with at least one row (and with a plate scale when the short slits
  are cut) it does return.
\<close>

theorem trim_slits_monotone:
  assumes "lcen st = Some L" and "rcen st = Some R"
  shows "(length R = length L \<and> (\<forall>k<length L. L ! k \<noteq> [] \<and> length (R ! k) = length (L ! k)) \<and>
          (tss \<longrightarrow> ps \<noteq> None)
            \<longrightarrow> (\<exists>st'. trim_slits st tss ps = Inr st')) \<and>
         (\<forall>st'. trim_slits st tss ps = Inr st' \<longrightarrow>
            (\<exists>ks. st' = st\<lparr>lcen := Some (map ((!) L) ks), rcen := Some (map ((!) R) ks),
                           steps := steps st @ [''_trim_slits'']\<rparr> \<and>
                  sorted_wrt (<) ks \<and> length ks \<le> length L \<and>
                  (\<forall>k\<in>set ks.
                     k < length L \<and> k < length R \<and> L ! k \<noteq> [] \<and> R ! k \<noteq> [] \<and>
                     Min (set (L ! k)) \<le> real (snd (shape (mstrace st))) \<and>
                     0 \<le> Max (set (R ! k)) \<and>
                     (tss \<longrightarrow> (\<exists>p m. ps = Some p \<and>
                        median (map2 (-) (R ! k) (L ! k)) = Some m \<and>
                        min_slit_width (par st) \<le> m * p))) \<and>
                  (\<forall>k<length L. k \<notin> set ks \<longrightarrow>
                     real (snd (shape (mstrace st))) < Min (set (L ! k))
                   \<or> (k < length R \<and> R ! k \<noteq> [] \<and> Max (set (R ! k)) < 0)
                   \<or> (tss \<and> (\<exists>p m. ps = Some p \<and> k < length R \<and>
                        median (map2 (-) (R ! k) (L ! k)) = Some m \<and>
                        m * p < min_slit_width (par st))))))"
proof (intro conjI impI allI)
  assume "length R = length L \<and>
    (\<forall>k<length L. L ! k \<noteq> [] \<and> length (R ! k) = length (L ! k)) \<and> (tss \<longrightarrow> ps \<noteq> None)"
  then show "\<exists>st'. trim_slits st tss ps = Inr st'"
    using trim_slits_total [OF assms] by blast
next
  fix st'
  assume "trim_slits st tss ps = Inr st'"
  from trim_slits_kept [OF this assms]
  show "\<exists>ks. st' = st\<lparr>lcen := Some (map ((!) L) ks), rcen := Some (map ((!) R) ks),
                           steps := steps st @ [''_trim_slits'']\<rparr> \<and>
                  sorted_wrt (<) ks \<and> length ks \<le> length L \<and>
                  (\<forall>k\<in>set ks.
                     k < length L \<and> k < length R \<and> L ! k \<noteq> [] \<and> R ! k \<noteq> [] \<and>
                     Min (set (L ! k)) \<le> real (snd (shape (mstrace st))) \<and>
                     0 \<le> Max (set (R ! k)) \<and>
                     (tss \<longrightarrow> (\<exists>p m. ps = Some p \<and>
                        median (map2 (-) (R ! k) (L ! k)) = Some m \<and>
                        min_slit_width (par st) \<le> m * p))) \<and>
                  (\<forall>k<length L. k \<notin> set ks \<longrightarrow>
                     real (snd (shape (mstrace st))) < Min (set (L ! k))
                   \<or> (k < length R \<and> R ! k \<noteq> [] \<and> Max (set (R ! k)) < 0)
                   \<or> (tss \<and> (\<exists>p m. ps = Some p \<and> k < length R \<and>
                        median (map2 (-) (R ! k) (L ! k)) = Some m \<and>
                        m * p < min_slit_width (par st))))" .
qed

theorem trim_slits_monotone_witness:
  "lcen trim_example = Some [[10, 10, 10], [60, 60, 60], [20, 20, 20], [30, 31, 45]] \<and>
   rcen trim_example = Some [[40, 40, 40], [90, 90, 90], [22, 22, 22], [44, 44, 44]] \<and>
   (\<exists>st'. trim_slits trim_example True (Some 1) = Inr st') \<and>
   (\<exists>ks. trim_slits trim_example True (Some 1) =
            Inr (trim_example
                   \<lparr>lcen := Some (map ((!) [[10, 10, 10], [60, 60, 60], [20, 20, 20], [30, 31, 45]]) ks),
                    rcen := Some (map ((!) [[40, 40, 40], [90, 90, 90], [22, 22, 22], [44, 44, 44]]) ks),
                    steps := steps trim_example @ [''_trim_slits'']\<rparr>) \<and>
          sorted_wrt (<) ks \<and> length ks \<le> 4)"
proof -
  let ?L = "[[10, 10, 10], [60, 60, 60], [20, 20, 20], [30, 31, 45::real]]"
  let ?R = "[[40, 40, 40], [90, 90, 90], [22, 22, 22], [44, 44, 44::real]]"
  have l: "lcen trim_example = Some ?L" and r: "rcen trim_example = Some ?R"
    by (simp_all add: trim_example_def)
  have wf: "length ?R = length ?L \<and>
      (\<forall>k<length ?L. ?L ! k \<noteq> [] \<and> length (?R ! k) = length (?L ! k)) \<and>
      (True \<longrightarrow> Some (1::real) \<noteq> None)"
    by (simp add: nth_Cons' less_Suc_eq)
  note t = trim_slits_monotone [OF l r, of True "Some 1"]
  from t wf have ex: "\<exists>st'. trim_slits trim_example True (Some 1) = Inr st'" by blast
  then obtain st' where st': "trim_slits trim_example True (Some 1) = Inr st'" by blast
  with t obtain ks where
    "st' = trim_example\<lparr>lcen := Some (map ((!) ?L) ks), rcen := Some (map ((!) ?R) ks),
                         steps := steps trim_example @ [''_trim_slits'']\<rparr>"
    "sorted_wrt (<) ks" "length ks \<le> length ?L"
    by blast
  with st' l r ex show ?thesis by auto
qed

subsection \<open>What the later stages leave alone\<close>

lemma synchronize_fields:
  "synchronize ext st = Inr s \<Longrightarrow>
   par s = par st \<and> lcen_tweak s = lcen_tweak st \<and> rcen_tweak s = rcen_tweak st \<and>
   mstrace s = mstrace st"
  unfolding synchronize_def
  by (auto simp: ebind_Inr_iff append_step_def split: prod.splits)

lemma pca_fields:
  "pca ext st = Inr s \<Longrightarrow>
   par s = par st \<and> lcen_tweak s = lcen_tweak st \<and> rcen_tweak s = rcen_tweak st \<and>
   mstrace s = mstrace st"
  unfolding pca_def pca_order_slit_edges_m_def pca_pixel_slit_edges_m_def
  by (auto simp: ebind_Inr_iff append_step_def split: prod.splits if_splits)

lemma make_pixel_arrays_fields:
  "make_pixel_arrays ext st = Inr s \<Longrightarrow>
   lcen s = lcen st \<and> rcen s = rcen st \<and> lcen_tweak s = lcen_tweak st \<and>
   rcen_tweak s = rcen_tweak st \<and> extrapord s = extrapord st \<and> steps s = steps st"
  unfolding make_pixel_arrays_def
  by (auto simp: ebind_Inr_iff split: prod.splits if_splits option.splits)

lemma fill_tslits_dict_Inr:
  "fill_tslits_dict st = Inr (d, s) \<Longrightarrow>
   d_lcen d = (if lcen_tweak st \<noteq> None then lcen_tweak st else lcen st) \<and>
   d_rcen d = (if lcen_tweak st \<noteq> None then rcen_tweak st else rcen st) \<and>
   d_extrapord d = extrapord st \<and> s = st\<lparr>tslits_dict := Some d\<rparr>"
  unfolding fill_tslits_dict_def
  by (auto simp: Let_def split: prod.splits option.splits)

lemma run_finish_general:
  assumes "run_finish ext arms ps st = Inr (d, st')"
    and "\<not> (lmax st + 1 - lmin st = 1 \<and> rmax st + 1 - rmin st = 1)"
  shows "\<exists>s2 s3 s4 s5. synchronize ext st = Inr s2 \<and> pca ext s2 = Inr s3 \<and>
           trim_slits s3 arms ps = Inr s4 \<and> make_pixel_arrays ext s4 = Inr s5 \<and>
           fill_tslits_dict s5 = Inr (d, st')"
  using assms unfolding run_finish_def chk_for_longslit_def
  by (auto simp: ebind_Inr_iff)


lemma run_finish_sync_example:
  "map_sum id fst (run_finish example_core True (Some 1) sync_example) =
     Inr \<lparr>d_lcen = Some [[10, 10, 10], [30, 31, 45]],
          d_rcen = Some [[40, 40, 40], [44, 44, 44]], d_pixcen = Some [],
          d_pixwid = Some [30, 8], d_lordpix = Some [], d_rordpix = Some [],
          d_extrapord = Some [False, False, False, False], d_slitpix = Some [],
          d_ximg = [], d_edge_mask = []\<rparr>"
  by (simp add: run_finish_def chk_for_longslit_def synchronize_def pca_def unmasked_orders_def
      trim_slits_def make_pixel_arrays_def fill_tslits_dict_def
      example_core_def sync_example_def example_state_def example_par_def
      shape_replicate arr2_def append_step_def mean_int_def
      slit_masked_def slit_off_detector_def slit_too_short_def rcol_def col_def sub1_def
      amin_def amax_def ebind_def wok_of_def median_def Let_def)


text \<open>
  C1 as stated fails: with the traces of \<open>trim_example\<close> coming out of the
  synchronisation, the second slit that \<^verbatim>\<open>run\<close> returns has its left trace at 45 and
  its right trace at 44 in the last row. Its median width is 13, so the trimming keeps
  it.
\<close>

theorem degenerate_slit_kept_counterexample:
  "map_sum id (\<lambda>r. (d_lcen (fst r), d_rcen (fst r)))
     (run_finish example_core True (Some 1) sync_example) =
     Inr (Some [[10, 10, 10], [30, 31, 45]], Some [[40, 40, 40], [44, 44, 44]]) \<and>
   \<not> ([[10, 10, 10], [30, 31, 45::real]] ! 1 ! 2 < [[40, 40, 40], [44, 44, 44::real]] ! 1 ! 2)"
proof -
  have "map_sum id (\<lambda>r. (d_lcen (fst r), d_rcen (fst r)))
          (run_finish example_core True (Some 1) sync_example) =
        map_sum id (\<lambda>d. (d_lcen d, d_rcen d))
          (map_sum id fst (run_finish example_core True (Some 1) sync_example))"
    by (cases "run_finish example_core True (Some 1) sync_example") simp_all
  then show ?thesis by (simp add: run_finish_sync_example)
qed

text \<open>
  C1, as the code has it. \<^verbatim>\<open>_trim_slits\<close> does not compare the left and the
  right trace row by row. On the general path of \<^verbatim>\<open>run\<close> with \<^verbatim>\<open>arms=True\<close>, a
  positive plate scale, a positive \<^verbatim>\<open>min_slit_width\<close> and no tweaked boundaries,
  every slit of the \<^verbatim>\<open>lcen\<close>, \<^verbatim>\<open>rcen\<close> that \<^verbatim>\<open>run\<close> returns has a positive
  median width, hence \<open>left(row) < right(row)\<close> on at least one row; a slit whose left
  trace is nowhere left of its right trace is therefore not among them.
\<close>

theorem run_output_left_right:
  assumes run: "run_finish ext True (Some p) st = Inr (d, st')"
    and gen: "\<not> (lmax st + 1 - lmin st = 1 \<and> rmax st + 1 - rmin st = 1)"
    and tw: "lcen_tweak st = None"
    and p: "0 < p" and w: "0 < min_slit_width (par st)"
  shows "\<exists>L R. d_lcen d = Some L \<and> d_rcen d = Some R \<and> length R = length L \<and>
           (\<forall>k<length L.
              (\<exists>m. median (map2 (-) (R ! k) (L ! k)) = Some m \<and> 0 < m) \<and>
              (\<exists>i. i < length (L ! k) \<and> i < length (R ! k) \<and> L ! k ! i < R ! k ! i))"
proof -
  from run_finish_general [OF run gen] obtain s2 s3 s4 s5 where
    s2: "synchronize ext st = Inr s2" and s3: "pca ext s2 = Inr s3" and
    s4: "trim_slits s3 True (Some p) = Inr s4" and
    s5: "make_pixel_arrays ext s4 = Inr s5" and d: "fill_tslits_dict s5 = Inr (d, st')"
    by blast
  from synchronize_fields [OF s2] pca_fields [OF s3] tw w
  have tw3: "lcen_tweak s3 = None" and w3: "0 < min_slit_width (par s3)" by auto
  from trim_slits_Inr [OF s4] obtain L0 R0 where
    l3: "lcen s3 = Some L0" and r3: "rcen s3 = Some R0" by blast
  from trim_slits_kept [OF s4 l3 r3] obtain ks where
    ks: "s4 = s3\<lparr>lcen := Some (map ((!) L0) ks), rcen := Some (map ((!) R0) ks),
                   steps := steps s3 @ [''_trim_slits'']\<rparr>" and
    kept: "\<And>k. k \<in> set ks \<Longrightarrow> \<exists>q m. Some p = Some q \<and>
              median (map2 (-) (R0 ! k) (L0 ! k)) = Some m \<and>
              min_slit_width (par s3) \<le> m * q"
    by auto
  let ?L = "map ((!) L0) ks" and ?R = "map ((!) R0) ks"
  from ks tw3 make_pixel_arrays_fields [OF s5] fill_tslits_dict_Inr [OF d]
  have dl: "d_lcen d = Some ?L" and dr: "d_rcen d = Some ?R" by auto
  have "(\<exists>m. median (map2 (-) (?R ! k) (?L ! k)) = Some m \<and> 0 < m) \<and>
        (\<exists>i. i < length (?L ! k) \<and> i < length (?R ! k) \<and> ?L ! k ! i < ?R ! k ! i)"
    if "k < length ?L" for k
  proof -
    from that have "ks ! k \<in> set ks" by simp
    from kept [OF this] obtain m where
      m: "median (map2 (-) (R0 ! (ks ! k)) (L0 ! (ks ! k))) = Some m" and
      le: "min_slit_width (par s3) \<le> m * p" by auto
    from le w3 have "0 < m * p" by linarith
    with p have mp: "0 < m" by (simp add: zero_less_mult_iff)
    from median_pos [OF m mp] obtain x where
      "x \<in> set (map2 (-) (R0 ! (ks ! k)) (L0 ! (ks ! k)))" "0 < x" by blast
    from map2_minus_pos [OF this] m mp that show ?thesis by auto
  qed
  with dl dr show ?thesis by auto
qed

theorem run_output_left_right_witness:
  "(\<exists>d st'. run_finish example_core True (Some 1) sync_example = Inr (d, st') \<and>
      (\<exists>L R. d_lcen d = Some L \<and> d_rcen d = Some R \<and> length R = length L \<and>
         (\<forall>k<length L.
            (\<exists>m. median (map2 (-) (R ! k) (L ! k)) = Some m \<and> 0 < m) \<and>
            (\<exists>i. i < length (L ! k) \<and> i < length (R ! k) \<and> L ! k ! i < R ! k ! i)))) \<and>
   \<not> (lmax sync_example + 1 - lmin sync_example = 1 \<and>
      rmax sync_example + 1 - rmin sync_example = 1) \<and>
   lcen_tweak sync_example = None \<and> (0::real) < 1 \<and>
   0 < min_slit_width (par sync_example)"
proof -
  have "\<exists>r. run_finish example_core True (Some 1) sync_example = Inr r"
    using run_finish_sync_example
    by (cases "run_finish example_core True (Some 1) sync_example") simp_all
  then obtain r where r: "run_finish example_core True (Some 1) sync_example = Inr r" ..
  obtain d st' where "r = (d, st')" by (cases r)
  with r have run: "run_finish example_core True (Some 1) sync_example = Inr (d, st')"
    by simp
  have gen: "\<not> (lmax sync_example + 1 - lmin sync_example = 1 \<and>
      rmax sync_example + 1 - rmin sync_example = 1)"
    by (simp add: sync_example_def example_state_def)
  have tw: "lcen_tweak sync_example = None"
    by (simp add: sync_example_def example_state_def)
  have w: "0 < min_slit_width (par sync_example)"
    by (simp add: sync_example_def example_state_def example_par_def)
  have p: "(0::real) < 1" by simp
  note concl = run_output_left_right [OF run gen tw p w]
  have "\<exists>d st'. run_finish example_core True (Some 1) sync_example = Inr (d, st') \<and>
      (\<exists>L R. d_lcen d = Some L \<and> d_rcen d = Some R \<and> length R = length L \<and>
         (\<forall>k<length L.
            (\<exists>m. median (map2 (-) (R ! k) (L ! k)) = Some m \<and> 0 < m) \<and>
            (\<exists>i. i < length (L ! k) \<and> i < length (R ! k) \<and> L ! k ! i < R ! k ! i)))"
    apply (rule exI [of _ d])
    apply (rule exI [of _ st'])
    apply (rule conjI)
     apply (rule run)
    apply (rule concl)
    done
  then show ?thesis
    apply (rule conjI)
    apply (rule conjI)
     apply (rule gen)
    apply (rule conjI)
     apply (rule tw)
    apply (rule conjI)
     apply (rule p)
    apply (rule w)
    done
qed

subsection \<open>The longslit shortcut\<close>

lemma chk_for_longslit_True:
  assumes "lmax st + 1 - lmin st = 1" and "rmax st + 1 - rmin st = 1"
    and "chk_for_longslit ext st = Inr (b, s)"
  shows "b \<and> pixlocn st \<noteq> [] \<and>
         (\<exists>xint lc lrest rc rrest lv rv.
            first_col (pixlocn st) = Inr xint \<and>
            lcoeff st = lc # lrest \<and> rcoeff st = rc # rrest \<and>
            func_val ext lc xint (func (par st)) (hd xint) (last xint) = Inr lv \<and>
            func_val ext rc xint (func (par st)) (hd xint) (last xint) = Inr rv \<and>
            length lv = fst (shape (mstrace st)) \<and> length rv = fst (shape (mstrace st)) \<and>
            s = st\<lparr>lcen := Some [lv], rcen := Some [rv]\<rparr>)"
  using assms unfolding chk_for_longslit_def single_column_def
  by (auto simp: ebind_Inr_iff split: if_splits list.splits)

lemma chk_for_longslit_eval:
  assumes "lmax st + 1 - lmin st = 1" and "rmax st + 1 - rmin st = 1"
    and "pixlocn st \<noteq> []" and "first_col (pixlocn st) = Inr xint"
    and "lcoeff st = lc # lrest" and "rcoeff st = rc # rrest"
    and "func_val ext lc xint (func (par st)) (hd xint) (last xint) = Inr lv"
    and "func_val ext rc xint (func (par st)) (hd xint) (last xint) = Inr rv"
    and "length lv = fst (shape (mstrace st))" and "length rv = fst (shape (mstrace st))"
  shows "chk_for_longslit ext st = Inr (True, st\<lparr>lcen := Some [lv], rcen := Some [rv]\<rparr>)"
  using assms unfolding chk_for_longslit_def single_column_def
  by (simp add: ebind_def)

text \<open>
  C2. Let the state after the two fits have one group of left edges and one group of
  right edges. Then the last part of \<^verbatim>\<open>run\<close> goes from the longslit check straight
  to the pixel arrays, whatever \<^verbatim>\<open>arms\<close> and \<^verbatim>\<open>plate_scale\<close> are: no
  synchronisation, PCA or trimming takes part and no step is logged. \<^verbatim>\<open>lcen\<close> and
  \<^verbatim>\<open>rcen\<close> are the single columns that \<^verbatim>\<open>func_val\<close> gives for the first left and
  the first right coefficient vector over the first coordinate of every row, each as
  long as the image has rows, and \<^verbatim>\<open>extrapord\<close> is the array \<open>[False]\<close>. The first
  part of the statement is the run itself on a well-formed fit; the second reads the
  same facts off any run that returns.
\<close>

theorem longslit_shortcut:
  assumes l: "lmax st + 1 - lmin st = 1" and r: "rmax st + 1 - rmin st = 1"
  shows "(pixlocn st \<noteq> [] \<and> first_col (pixlocn st) = Inr xint \<and>
            lcoeff st = lc # lrest \<and> rcoeff st = rc # rrest \<and>
            func_val ext lc xint (func (par st)) (hd xint) (last xint) = Inr lv \<and>
            func_val ext rc xint (func (par st)) (hd xint) (last xint) = Inr rv \<and>
            length lv = fst (shape (mstrace st)) \<and> length rv = fst (shape (mstrace st))
            \<longrightarrow> run_finish ext arms ps st =
                  ebind (make_pixel_arrays ext
                           (st\<lparr>lcen := Some [lv], rcen := Some [rv],
                               extrapord := Some [False]\<rparr>))
                    fill_tslits_dict) \<and>
         (\<forall>d st'. run_finish ext arms ps st = Inr (d, st') \<longrightarrow>
            (\<exists>xint lc lrest rc rrest lv rv.
               first_col (pixlocn st) = Inr xint \<and>
               lcoeff st = lc # lrest \<and> rcoeff st = rc # rrest \<and>
               func_val ext lc xint (func (par st)) (hd xint) (last xint) = Inr lv \<and>
               func_val ext rc xint (func (par st)) (hd xint) (last xint) = Inr rv \<and>
               length lv = fst (shape (mstrace st)) \<and> length rv = fst (shape (mstrace st)) \<and>
               lcen st' = Some [lv] \<and> rcen st' = Some [rv] \<and>
               extrapord st' = Some [False] \<and> d_extrapord d = Some [False] \<and>
               steps st' = steps st \<and>
               (lcen_tweak st = None \<longrightarrow> d_lcen d = Some [lv] \<and> d_rcen d = Some [rv])))"
proof (intro conjI allI impI)
  assume a: "pixlocn st \<noteq> [] \<and> first_col (pixlocn st) = Inr xint \<and>
            lcoeff st = lc # lrest \<and> rcoeff st = rc # rrest \<and>
            func_val ext lc xint (func (par st)) (hd xint) (last xint) = Inr lv \<and>
            func_val ext rc xint (func (par st)) (hd xint) (last xint) = Inr rv \<and>
            length lv = fst (shape (mstrace st)) \<and> length rv = fst (shape (mstrace st))"
  then have "chk_for_longslit ext st = Inr (True, st\<lparr>lcen := Some [lv], rcen := Some [rv]\<rparr>)"
    using chk_for_longslit_eval [OF l r] by blast
  then show "run_finish ext arms ps st =
      ebind (make_pixel_arrays ext
               (st\<lparr>lcen := Some [lv], rcen := Some [rv], extrapord := Some [False]\<rparr>))
        fill_tslits_dict"
    by (simp add: run_finish_def ebind_def)
next
  fix d st'
  assume run: "run_finish ext arms ps st = Inr (d, st')"
  then obtain b s1 s4 s5 where
    c: "chk_for_longslit ext st = Inr (b, s1)" and
    s4: "(if b then Inr (s1\<lparr>extrapord := Some [False]\<rparr>)
          else ebind (synchronize ext s1) (\<lambda>s2.
               ebind (pca ext s2) (\<lambda>s3. trim_slits s3 arms ps))) = Inr s4" and
    s5: "make_pixel_arrays ext s4 = Inr s5" and
    d: "fill_tslits_dict s5 = Inr (d, st')"
    unfolding run_finish_def by (auto simp: ebind_Inr_iff)
  from chk_for_longslit_True [OF l r c] obtain xint lc lrest rc rrest lv rv where
    b: b and
    x: "first_col (pixlocn st) = Inr xint" "lcoeff st = lc # lrest" "rcoeff st = rc # rrest"
      "func_val ext lc xint (func (par st)) (hd xint) (last xint) = Inr lv"
      "func_val ext rc xint (func (par st)) (hd xint) (last xint) = Inr rv"
      "length lv = fst (shape (mstrace st))" "length rv = fst (shape (mstrace st))" and
    s1: "s1 = st\<lparr>lcen := Some [lv], rcen := Some [rv]\<rparr>"
    by blast
  from s4 b s1 have s4': "s4 = st\<lparr>lcen := Some [lv], rcen := Some [rv],
      extrapord := Some [False]\<rparr>" by simp
  from make_pixel_arrays_fields [OF s5] s4'
  have f5: "lcen s5 = Some [lv]" "rcen s5 = Some [rv]" "extrapord s5 = Some [False]"
    "steps s5 = steps st" "lcen_tweak s5 = lcen_tweak st" by simp_all
  from fill_tslits_dict_Inr [OF d] f5
  have f: "lcen st' = Some [lv]" "rcen st' = Some [rv]" "extrapord st' = Some [False]"
    "d_extrapord d = Some [False]" "steps st' = steps st"
    "lcen_tweak st = None \<longrightarrow> d_lcen d = Some [lv] \<and> d_rcen d = Some [rv]"
    by simp_all
  show "\<exists>xint lc lrest rc rrest lv rv.
               first_col (pixlocn st) = Inr xint \<and>
               lcoeff st = lc # lrest \<and> rcoeff st = rc # rrest \<and>
               func_val ext lc xint (func (par st)) (hd xint) (last xint) = Inr lv \<and>
               func_val ext rc xint (func (par st)) (hd xint) (last xint) = Inr rv \<and>
               length lv = fst (shape (mstrace st)) \<and> length rv = fst (shape (mstrace st)) \<and>
               lcen st' = Some [lv] \<and> rcen st' = Some [rv] \<and>
               extrapord st' = Some [False] \<and> d_extrapord d = Some [False] \<and>
               steps st' = steps st \<and>
               (lcen_tweak st = None \<longrightarrow> d_lcen d = Some [lv] \<and> d_rcen d = Some [rv])"
    apply (rule exI [of _ xint], rule exI [of _ lc], rule exI [of _ lrest])
    apply (rule exI [of _ rc], rule exI [of _ rrest], rule exI [of _ lv], rule exI [of _ rv])
    using x f by simp
qed


lemma longslit_example_cond:
  "pixlocn longslit_example \<noteq> [] \<and> first_col (pixlocn longslit_example) = Inr [0, 1, 2] \<and>
   lcoeff longslit_example = [10] # [] \<and> rcoeff longslit_example = [40] # [] \<and>
   func_val example_core [10] [0, 1, 2] (func (par longslit_example))
     (hd [0, 1, 2]) (last [0, 1, 2]) = Inr [10, 10, 10] \<and>
   func_val example_core [40] [0, 1, 2] (func (par longslit_example))
     (hd [0, 1, 2]) (last [0, 1, 2]) = Inr [40, 40, 40] \<and>
   length [10, 10, 10 :: real] = fst (shape (mstrace longslit_example)) \<and>
   length [40, 40, 40 :: real] = fst (shape (mstrace longslit_example))"
  by (simp add: longslit_example_def example_state_def first_col_def example_core_def
      shape_replicate)

theorem longslit_shortcut_witness:
  "lmax longslit_example + 1 - lmin longslit_example = 1 \<and>
   rmax longslit_example + 1 - rmin longslit_example = 1 \<and>
   run_finish example_core True None longslit_example =
     ebind (make_pixel_arrays example_core
              (longslit_example\<lparr>lcen := Some [[10, 10, 10]], rcen := Some [[40, 40, 40]],
                                extrapord := Some [False]\<rparr>))
       fill_tslits_dict"
proof -
  have l: "lmax longslit_example + 1 - lmin longslit_example = 1"
    and r: "rmax longslit_example + 1 - rmin longslit_example = 1"
    by (simp_all add: longslit_example_def example_state_def)
  note t = longslit_shortcut [OF l r, where ext = example_core and arms = True and ps = None
      and xint = "[0, 1, 2]" and lc = "[10]" and lrest = "[]" and rc = "[40]" and rrest = "[]"
      and lv = "[10, 10, 10]" and rv = "[40, 40, 40]"]
  from conjunct1 [OF t, THEN mp, OF longslit_example_cond] l r show ?thesis
    by (intro conjI)
qed

subsection \<open>The first part of run\<close>

lemma add_left_right_Inr:
  "add_left_right ext st = Inr (b, s) \<Longrightarrow>
   b = (\<not> (lcnt s = 0 \<and> rcnt s = 0)) \<and> steps s = steps st @ [''_add_left_right'']"
  unfolding add_left_right_def
  by (auto simp: ebind_Inr_iff append_step_def split: prod.splits)

lemma match_edges_m_steps:
  "match_edges_m ext st = Inr s \<Longrightarrow> steps s = steps st @ [''_match_edges'']"
  unfolding match_edges_m_def msgs_error_def
  by (auto simp: ebind_Inr_iff append_step_def split: prod.splits if_splits)

lemma edgearr_steps:
  "edgearr_single_slit ext st = Inr s \<Longrightarrow> steps s = steps st @ [''_edgearr_single_slit'']"
  "edgearr_from_binarr_m ext st = Inr s \<Longrightarrow> steps s = steps st @ [''_edgearr_from_binarr'']"
  unfolding edgearr_single_slit_def edgearr_from_binarr_m_def
  by (auto simp: ebind_Inr_iff append_step_def split: prod.splits option.splits)

lemma run_detect_Inr:
  assumes "run_detect ext st = Inr (b, s)"
  shows "b = (\<not> (lcnt s = 0 \<and> rcnt s = 0)) \<and>
         steps s = steps st @
           [if length (single (par st)) > 0 then ''_edgearr_single_slit''
            else ''_edgearr_from_binarr'', ''_match_edges'', ''_add_left_right'']"
proof (cases "length (single (par st)) > 0")
  case True
  with assms obtain s0 s2 where
    s0: "edgearr_single_slit ext st = Inr s0" and
    s2: "match_edges_m ext (s0\<lparr>user_set := Some True\<rparr>) = Inr s2" and
    s3: "add_left_right ext s2 = Inr (b, s)"
    unfolding run_detect_def by (auto simp: ebind_Inr_iff)
  from edgearr_steps(1) [OF s0] match_edges_m_steps [OF s2] add_left_right_Inr [OF s3] True
  show ?thesis by simp
next
  case False
  with assms obtain s0 s2 where
    s0: "edgearr_from_binarr_m ext st = Inr s0" and
    s2: "match_edges_m ext (s0\<lparr>user_set := Some False\<rparr>) = Inr s2" and
    s3: "add_left_right ext s2 = Inr (b, s)"
    unfolding run_detect_def by (auto simp: ebind_Inr_iff)
  from edgearr_steps(2) [OF s0] match_edges_m_steps [OF s2] add_left_right_Inr [OF s3] False
  show ?thesis by simp
qed

text \<open>
  C4. \<^verbatim>\<open>run\<close> returns \<^verbatim>\<open>None\<close> exactly when its first part (the making of the edge
  image, \<^verbatim>\<open>_match_edges\<close> and \<^verbatim>\<open>_add_left_right\<close>) raises nothing and leaves both
  edge counts at zero. The value is then a regular return, not an exception; the
  instance is the one \<^verbatim>\<open>_add_left_right\<close> left, and the three steps of the first part
  are all that was logged.
\<close>

theorem run_returns_None_iff:
  "((\<exists>s. run ext arms ignore_orders user_slits plate_scale st = Inr (None, s)) \<longleftrightarrow>
      (\<exists>b s1. run_detect ext st = Inr (b, s1) \<and> lcnt s1 = 0 \<and> rcnt s1 = 0)) \<and>
   (\<forall>b s1. run_detect ext st = Inr (b, s1) \<and> lcnt s1 = 0 \<and> rcnt s1 = 0 \<longrightarrow>
      run ext arms ignore_orders user_slits plate_scale st = Inr (None, s1) \<and>
      steps s1 = steps st @
        [if length (single (par st)) > 0 then ''_edgearr_single_slit''
         else ''_edgearr_from_binarr'', ''_match_edges'', ''_add_left_right''])"
proof (intro conjI allI impI iffI)
  assume "\<exists>s. run ext arms ignore_orders user_slits plate_scale st = Inr (None, s)"
  then obtain s where s: "run ext arms ignore_orders user_slits plate_scale st = Inr (None, s)" ..
  then obtain b s1 where d: "run_detect ext st = Inr (b, s1)"
    unfolding run_def by (auto simp: ebind_Inr_iff)
  have "\<not> b"
  proof
    assume b
    with s d show False
      unfolding run_def by (auto simp: ebind_def split: sum.splits prod.splits)
  qed
  with run_detect_Inr [OF d] d
  show "\<exists>b s1. run_detect ext st = Inr (b, s1) \<and> lcnt s1 = 0 \<and> rcnt s1 = 0" by blast
next
  assume "\<exists>b s1. run_detect ext st = Inr (b, s1) \<and> lcnt s1 = 0 \<and> rcnt s1 = 0"
  then obtain b s1 where d: "run_detect ext st = Inr (b, s1)" and z: "lcnt s1 = 0" "rcnt s1 = 0"
    by blast
  with run_detect_Inr [OF d] have "\<not> b" by simp
  with d show "\<exists>s. run ext arms ignore_orders user_slits plate_scale st = Inr (None, s)"
    unfolding run_def by (simp add: ebind_def)
next
  fix b s1
  assume a: "run_detect ext st = Inr (b, s1) \<and> lcnt s1 = 0 \<and> rcnt s1 = 0"
  then have d: "run_detect ext st = Inr (b, s1)" by simp
  with a run_detect_Inr [OF d] have "\<not> b" by simp
  with d show "run ext arms ignore_orders user_slits plate_scale st = Inr (None, s1)"
    unfolding run_def by (simp add: ebind_def)
  from run_detect_Inr [OF d]
  show "steps s1 = steps st @
        [if length (single (par st)) > 0 then ''_edgearr_single_slit''
         else ''_edgearr_from_binarr'', ''_match_edges'', ''_add_left_right'']" by simp
qed


lemma run_detect_example:
  "run_detect example_core example_state =
     Inr (False,
          example_state
            \<lparr>siglev := Some (replicate 3 (replicate 50 0)), edgearr := [[0, 0], [0, 0]],
             user_set := Some False, lcnt := 0, rcnt := 0,
             steps := [''make_binarr'', ''_edgearr_from_binarr'', ''_match_edges'',
                       ''_add_left_right'']\<rparr>)"
  by (simp add: run_detect_def edgearr_from_binarr_m_def match_edges_m_def add_left_right_def
      example_core_def example_state_def example_par_def ebind_def append_step_def)

theorem run_returns_None_iff_witness:
  "(\<exists>b s1. run_detect example_core example_state = Inr (b, s1) \<and> lcnt s1 = 0 \<and> rcnt s1 = 0 \<and>
      run example_core True False None None example_state = Inr (None, s1) \<and>
      steps s1 = [''make_binarr'', ''_edgearr_from_binarr'', ''_match_edges'',
                  ''_add_left_right''])"
proof -
  let ?s1 = "example_state
            \<lparr>siglev := Some (replicate 3 (replicate 50 0)), edgearr := [[0, 0], [0, 0]],
             user_set := Some False, lcnt := 0, rcnt := 0,
             steps := [''make_binarr'', ''_edgearr_from_binarr'', ''_match_edges'',
                       ''_add_left_right'']\<rparr>"
  have h: "run_detect example_core example_state = Inr (False, ?s1) \<and>
      lcnt ?s1 = 0 \<and> rcnt ?s1 = 0"
    using run_detect_example by simp
  note t = run_returns_None_iff [where ext = example_core and st = example_state
      and arms = True and ignore_orders = False and user_slits = None and plate_scale = None]
  from conjunct2 [OF t, THEN spec, THEN spec, THEN mp, OF h]
  have "run example_core True False None None example_state = Inr (None, ?s1)" by (rule conjunct1)
  with h show ?thesis
    apply (intro exI [of _ False] exI [of _ ?s1])
    apply simp
    done
qed

subsection \<open>The edge budget\<close>

text \<open>
  C5 as stated fails: \<^verbatim>\<open>_match_edges\<close> tests \<^verbatim>\<open>lcnt >= ednum\<close>, so a count that
  equals the budget, three groups for a budget of three, aborts the run although it
  does not exceed the budget.
\<close>

theorem match_edges_budget_counterexample:
  "match_edges budget_core (edgearr budget_state) (ednum budget_state) =
     Inr ([[0, 0], [0, 0]], 3, 0) \<and>
   \<not> (3 > ednum budget_state) \<and> \<not> (0 > ednum budget_state) \<and>
   match_edges_m budget_core budget_state =
     Inl (PypeItError
            ''Found more edges than allowed by ednum. Set ednum to a larger number.'')"
  by (simp add: budget_core_def budget_state_def example_core_def example_state_def
      match_edges_m_def msgs_error_def ebind_def)

text \<open>
  C5, as the code has it. When \<^verbatim>\<open>match_edges\<close> returns the counts \<open>lc\<close> and
  \<open>rc\<close>, \<^verbatim>\<open>_match_edges\<close> fails if and only if one of them reaches or exceeds
  \<^verbatim>\<open>ednum\<close>, with the error of \<^verbatim>\<open>msgs.error\<close>; otherwise it stores both counts
  and the edge image as the matcher returned them and logs the step: nothing is
  truncated.
\<close>

theorem match_edges_m_fails_iff:
  assumes "match_edges ext (edgearr st) (ednum st) = Inr (e, lc, rc)"
  shows "((\<exists>err. match_edges_m ext st = Inl err) \<longleftrightarrow> lc \<ge> ednum st \<or> rc \<ge> ednum st) \<and>
         (lc \<ge> ednum st \<or> rc \<ge> ednum st \<longrightarrow>
            match_edges_m ext st =
              Inl (PypeItError
                ''Found more edges than allowed by ednum. Set ednum to a larger number.'')) \<and>
         (\<not> (lc \<ge> ednum st \<or> rc \<ge> ednum st) \<longrightarrow>
            match_edges_m ext st =
              Inr (st\<lparr>edgearr := e, lcnt := lc, rcnt := rc,
                      steps := steps st @ [''_match_edges'']\<rparr>))"
  using assms unfolding match_edges_m_def msgs_error_def append_step_def
  by (simp add: ebind_def)

theorem match_edges_m_fails_iff_witness:
  "match_edges budget_core (edgearr budget_state) (ednum budget_state) =
     Inr ([[0, 0], [0, 0]], 3, 0) \<and>
   ((\<exists>err. match_edges_m budget_core budget_state = Inl err) \<longleftrightarrow>
      3 \<ge> ednum budget_state \<or> 0 \<ge> ednum budget_state)"
proof -
  have h: "match_edges budget_core (edgearr budget_state) (ednum budget_state) =
     Inr ([[0, 0], [0, 0]], 3, 0)"
    by (simp add: budget_core_def budget_state_def example_core_def example_state_def)
  from conjunct1 [OF match_edges_m_fails_iff [OF h]] h show ?thesis by (rule conjI [rotated])
qed

subsection \<open>The trivial assignment\<close>

lemma relabel_left_nth:
  "i < length e \<Longrightarrow> j < length (e ! i) \<Longrightarrow>
   relabel_left n e ! i ! j = (if e ! i ! j \<le> - 2 * n then - n else e ! i ! j)"
  by (simp add: relabel_left_def)

lemma relabel_right_nth:
  "i < length e \<Longrightarrow> j < length (e ! i) \<Longrightarrow>
   relabel_right n e ! i ! j = (if e ! i ! j \<ge> 2 * n then n else e ! i ! j)"
  by (simp add: relabel_right_def)

lemma relabel_shape:
  "map length (relabel_left n e) = map length e"
  "map length (relabel_right n e) = map length e"
  by (simp_all add: relabel_left_def relabel_right_def)

text \<open>
  C6. With exactly one group of left edges, \<^verbatim>\<open>_assign_edges\<close> relabels the left
  side itself and calls \<^verbatim>\<open>assign_slits\<close> at most for the right side: its result does
  not depend on what \<^verbatim>\<open>assign_slits\<close> does for \<^verbatim>\<open>lor = -1\<close>. The mirror image
  holds with exactly one group of right edges. The relabelling keeps the shape of the
  edge image, sets every pixel at or below \<open>- 2 * ednum\<close> to \<open>- ednum\<close> (at or above
  \<open>2 * ednum\<close> to \<open>ednum\<close>) and leaves every other pixel as it is.
\<close>

theorem assign_edges_single_group:
  "(lcnt st = 1 \<longrightarrow>
      assign_edges ext st =
        ebind (if rcnt st = 1
               then Inr (relabel_right (ednum st) (relabel_left (ednum st) (edgearr st)))
               else assign_slits ext (binarr st) (relabel_left (ednum st) (edgearr st)) 1
                      (func (par st)) (polyorder (par st)))
          (\<lambda>e. Inr (st\<lparr>edgearr := e, steps := steps st @ [''_assign_edges'']\<rparr>)) \<and>
      (\<forall>g. (\<forall>b e f p. g b e 1 f p = assign_slits ext b e 1 f p) \<longrightarrow>
           assign_edges (ext\<lparr>assign_slits := g\<rparr>) st = assign_edges ext st)) \<and>
   (rcnt st = 1 \<longrightarrow>
      assign_edges ext st =
        ebind (if lcnt st = 1 then Inr (relabel_left (ednum st) (edgearr st))
               else assign_slits ext (binarr st) (edgearr st) (- 1)
                      (func (par st)) (polyorder (par st)))
          (\<lambda>e. Inr (st\<lparr>edgearr := relabel_right (ednum st) e,
                        steps := steps st @ [''_assign_edges'']\<rparr>)) \<and>
      (\<forall>g. (\<forall>b e f p. g b e (- 1) f p = assign_slits ext b e (- 1) f p) \<longrightarrow>
           assign_edges (ext\<lparr>assign_slits := g\<rparr>) st = assign_edges ext st)) \<and>
   map length (relabel_left n e) = map length e \<and>
   map length (relabel_right n e) = map length e \<and>
   (\<forall>i j. i < length e \<and> j < length (e ! i) \<longrightarrow>
      relabel_left n e ! i ! j = (if e ! i ! j \<le> - 2 * n then - n else e ! i ! j) \<and>
      relabel_right n e ! i ! j = (if e ! i ! j \<ge> 2 * n then n else e ! i ! j))"
  by (simp add: assign_edges_def append_step_def ebind_def relabel_left_nth relabel_right_nth
      relabel_shape)


theorem assign_edges_single_group_witness:
  "lcnt assign_example = 1 \<and> rcnt assign_example = 1 \<and>
   assign_edges example_core assign_example =
     Inr (assign_example\<lparr>edgearr := [[- 100000, 0, 100000], [- 100000, 5, 100000]],
                         steps := [''make_binarr'', ''_assign_edges'']\<rparr>)"
proof -
  have l: "lcnt assign_example = 1" and r: "rcnt assign_example = 1"
    by (simp_all add: assign_example_def)
  note t = assign_edges_single_group [where st = assign_example and ext = example_core]
  from conjunct1 [OF t, THEN mp, OF l, THEN conjunct1]
  have "assign_edges example_core assign_example =
      Inr (assign_example
             \<lparr>edgearr := relabel_right (ednum assign_example)
                           (relabel_left (ednum assign_example) (edgearr assign_example)),
              steps := steps assign_example @ [''_assign_edges'']\<rparr>)"
    using r by (simp add: ebind_def)
  moreover have "relabel_right (ednum assign_example)
      (relabel_left (ednum assign_example) (edgearr assign_example)) =
      [[- 100000, 0, 100000], [- 100000, 5, 100000]]"
    by (simp add: assign_example_def example_state_def relabel_left_def relabel_right_def)
  moreover have "steps assign_example = [''make_binarr'']"
    by (simp add: assign_example_def example_state_def)
  ultimately show ?thesis using l r by simp
qed

subsection \<open>The pixel arrays\<close>

text \<open>
  C8. When \<^verbatim>\<open>_make_pixel_arrays\<close> returns, a second call on the instance it left
  returns that very instance: \<^verbatim>\<open>pixcen\<close>, \<^verbatim>\<open>pixwid\<close>, \<^verbatim>\<open>lordpix\<close>,
  \<^verbatim>\<open>rordpix\<close>, \<^verbatim>\<open>slitpix\<close>, \<^verbatim>\<open>ximg\<close> and \<^verbatim>\<open>edge_mask\<close> are the same
  arrays, and nothing else has changed. The method reads the traces, the pixel
  locations, the shape of the image and the parameters, and writes none of them.
\<close>

theorem make_pixel_arrays_idempotent:
  assumes "make_pixel_arrays ext st = Inr st'"
  shows "make_pixel_arrays ext st' = Inr st'"
proof -
  from assms obtain l r mid pc w lp rp sp xi em where
    sel: "(if lcen_tweak st \<noteq> None then (lcen_tweak st, rcen_tweak st)
           else (lcen st, rcen st)) = (Some l, Some r)" and
    c: "arr2 (\<lambda>a b. (1 / 2) * (a + b)) l r = Inr mid"
       "phys_to_pix ext mid (pixlocn st) 1 = Inr pc"
       "arr2 (\<lambda>a b. a - b) r l = Inr w"
       "phys_to_pix ext l (pixlocn st) 1 = Inr lp"
       "phys_to_pix ext r (pixlocn st) 1 = Inr rp"
       "slit_pixels ext l r (shape (mstrace st)) (pad (par st)) = Inr sp"
       "ximg_and_edgemask ext l r sp (trim (par st)) = Inr (xi, em)" and
    st': "st' = st\<lparr>pixcen := Some pc, pixwid := Some (map (mean_int (nan_as_int ext)) w),
                    lordpix := Some lp, rordpix := Some rp, slitpix := Some sp,
                    ximg := Some xi, edge_mask := Some em\<rparr>"
    unfolding make_pixel_arrays_def
    by (auto simp: ebind_Inr_iff split: option.splits prod.splits)
  from st' have same: "lcen_tweak st' = lcen_tweak st" "rcen_tweak st' = rcen_tweak st"
    "lcen st' = lcen st" "rcen st' = rcen st"
    "pixlocn st' = pixlocn st" "mstrace st' = mstrace st" "par st' = par st"
    by simp_all
  have upd: "st'\<lparr>pixcen := Some pc, pixwid := Some (map (mean_int (nan_as_int ext)) w),
                 lordpix := Some lp, rordpix := Some rp, slitpix := Some sp,
                 ximg := Some xi, edge_mask := Some em\<rparr> = st'"
    by (simp add: st')
  show ?thesis
    unfolding make_pixel_arrays_def same sel
    by (simp only: c ebind_def sum.case prod.case option.case upd)
qed

lemma pixel_example_eval:
  "make_pixel_arrays example_core pixel_example =
     Inr (pixel_example\<lparr>pixcen := Some [], pixwid := Some [30, 8], lordpix := Some [],
                        rordpix := Some [], slitpix := Some [], ximg := Some [],
                        edge_mask := Some []\<rparr>)"
  by (simp add: make_pixel_arrays_def pixel_example_def example_state_def example_core_def
      example_par_def arr2_def ebind_def mean_int_def shape_replicate)

theorem make_pixel_arrays_idempotent_witness:
  "make_pixel_arrays example_core pixel_example =
     Inr (pixel_example\<lparr>pixcen := Some [], pixwid := Some [30, 8], lordpix := Some [],
                        rordpix := Some [], slitpix := Some [], ximg := Some [],
                        edge_mask := Some []\<rparr>) \<and>
   make_pixel_arrays example_core
     (pixel_example\<lparr>pixcen := Some [], pixwid := Some [30, 8], lordpix := Some [],
                    rordpix := Some [], slitpix := Some [], ximg := Some [],
                    edge_mask := Some []\<rparr>) =
     Inr (pixel_example\<lparr>pixcen := Some [], pixwid := Some [30, 8], lordpix := Some [],
                        rordpix := Some [], slitpix := Some [], ximg := Some [],
                        edge_mask := Some []\<rparr>)"
  using pixel_example_eval make_pixel_arrays_idempotent [OF pixel_example_eval]
  by (rule conjI)

subsection \<open>add_user_slits with run_to_finish\<close>

text \<open>
  C9. \<^verbatim>\<open>add_user_slits\<close> with \<^verbatim>\<open>run_to_finish=True\<close> never returns: the call
  is the sequence of the reset, \<^verbatim>\<open>add_user_edges\<close>, \<^verbatim>\<open>_set_lrminx\<close>, the two fits,
  the synchronisation and the PCA, followed by the NameError of the unbound
  \<^verbatim>\<open>plate_scale\<close>. It raises that NameError unless one of the steps before it has
  raised already; \<^verbatim>\<open>_trim_slits\<close> is not entered and the step is not logged.
\<close>

theorem add_user_slits_run_to_finish:
  "(\<forall>s. add_user_slits ext user_slits True st \<noteq> Inr s) \<and>
   add_user_slits ext user_slits True st =
     ebind (reset_edgearr_ednum st) (\<lambda>s1.
     ebind (add_user_edges ext (edgearr s1) (siglev s1) (tc_dict s1) user_slits) (\<lambda>e.
     ebind (set_lrminx (s1\<lparr>edgearr := e\<rparr>)) (\<lambda>s2.
     ebind (fit_edges_m ext ''left'' s2) (\<lambda>s3.
     ebind (fit_edges_m ext ''right'' s3) (\<lambda>s4.
     ebind (synchronize ext s4) (\<lambda>s5.
     ebind (pca ext s5) (\<lambda>s6. Inl NameError)))))))"
  unfolding add_user_slits_def
  by (auto simp: ebind_def split: sum.splits)

theorem add_user_slits_run_to_finish_witness:
  "add_user_slits example_core [[10, 40]] True user_example = Inl NameError"
proof -
  have "ebind (reset_edgearr_ednum user_example) (\<lambda>s1.
     ebind (add_user_edges example_core (edgearr s1) (siglev s1) (tc_dict s1) [[10, 40]]) (\<lambda>e.
     ebind (set_lrminx (s1\<lparr>edgearr := e\<rparr>)) (\<lambda>s2.
     ebind (fit_edges_m example_core ''left'' s2) (\<lambda>s3.
     ebind (fit_edges_m example_core ''right'' s3) (\<lambda>s4.
     ebind (synchronize example_core s4) (\<lambda>s5.
     ebind (pca example_core s5) (\<lambda>s6. Inl NameError))))))) = Inl NameError"
    by (simp add: reset_edgearr_ednum_def set_lrminx_def fit_edges_m_def synchronize_def
        pca_def pca_pixel_slit_edges_m_def user_example_def example_state_def example_core_def
        example_par_def amax_def amin_def arr2_def append_step_def ebind_def)
  with conjunct2 [OF add_user_slits_run_to_finish
      [where ext = example_core and user_slits = "[[10, 40]]" and st = user_example]]
  show ?thesis by simp
qed

subsection \<open>Trimming without a plate scale\<close>

lemma trim_slits_no_plate_scale:
  assumes "trim_slits s True None = Inr s'"
  shows "lcen s = Some []"
proof -
  from trim_slits_Inr [OF assms] obtain L R ms where
    L: "lcen s = Some L" and
    ms: "trim_mask L (Some R) (snd (shape (mstrace s))) True None (min_slit_width (par s))
           [0..<length L] = Inr ms"
    by blast
  have "L = []"
  proof (rule ccontr)
    assume "L \<noteq> []"
    then have "0 < length [0..<length L]" "[0..<length L] ! 0 = 0" by simp_all
    with trim_mask_Inr [OF ms]
    have "slit_masked L (Some R) (snd (shape (mstrace s))) True None
            (min_slit_width (par s)) 0 = Inr (ms ! 0)"
      by metis
    from slit_masked_Inr [OF this] show False by simp
  qed
  with L show ?thesis by simp
qed

lemma trim_slits_TypeError:
  assumes "lcen s = Some L" and "rcen s = Some R" and "L \<noteq> []" and "R \<noteq> []"
    and "L ! 0 \<noteq> []" and "length (R ! 0) = length (L ! 0)"
  shows "trim_slits s True None = Inl TypeError"
proof -
  from assms obtain a as c cs where ac: "L ! 0 = a # as" "R ! 0 = c # cs"
    by (metis list.exhaust length_0_conv)
  with assms have "slit_masked L (Some R) (snd (shape (mstrace s))) True None
      (min_slit_width (par s)) 0 = Inl TypeError"
    unfolding slit_masked_def slit_off_detector_def slit_too_short_def rcol_def col_def
      sub1_def amin_def amax_def ebind_def
    by simp
  moreover from assms(3) have "[0..<length L] = 0 # [1..<length L]"
    by (simp add: upt_conv_Cons)
  ultimately have "trim_mask L (Some R) (snd (shape (mstrace s))) True None
      (min_slit_width (par s)) [0..<length L] = Inl TypeError"
    by (simp add: ebind_def)
  with assms(1,2) show ?thesis by (simp add: trim_slits_def ebind_def)
qed

lemma run_Inr:
  assumes "run ext arms io us ps st = Inr (r, st')"
  shows "(r = None \<and> run_detect ext st = Inr (False, st')) \<or>
         (\<exists>s1 s2 d. run_detect ext st = Inr (True, s1) \<and>
            run_edges ext arms io us s1 = Inr s2 \<and>
            run_finish ext arms ps s2 = Inr (d, st') \<and> r = Some d)"
  using assms unfolding run_def
  by (auto simp: ebind_Inr_iff split: if_splits)

text \<open>
  C10, as the code has it. With \<^verbatim>\<open>arms=True\<close> and \<^verbatim>\<open>plate_scale=None\<close>,
  \<^verbatim>\<open>_trim_slits\<close> raises as soon as one slit reaches it; it raises the TypeError of
  the product with \<^verbatim>\<open>None\<close> when the first slit has a left and a right trace of one
  length with at least one row. Hence a \<^verbatim>\<open>run\<close> with these arguments that returns
  has returned \<^verbatim>\<open>None\<close> for want of edges, or has taken the longslit shortcut, or
  has come out of the synchronisation and the PCA with no slit.
\<close>

theorem run_without_plate_scale:
  "(\<forall>r st'. run ext True ignore_orders user_slits None st = Inr (r, st') \<longrightarrow>
      (r = None \<and> run_detect ext st = Inr (False, st')) \<or>
      (\<exists>s1 s2. run_detect ext st = Inr (True, s1) \<and>
         run_edges ext True ignore_orders user_slits s1 = Inr s2 \<and>
         ((lmax s2 + 1 - lmin s2 = 1 \<and> rmax s2 + 1 - rmin s2 = 1) \<or>
          (\<exists>s3 s4. synchronize ext s2 = Inr s3 \<and> pca ext s3 = Inr s4 \<and>
             lcen s4 = Some [])))) \<and>
   (lcen s = Some L \<and> rcen s = Some R \<and> L \<noteq> [] \<and> R \<noteq> [] \<and> L ! 0 \<noteq> [] \<and>
    length (R ! 0) = length (L ! 0) \<longrightarrow> trim_slits s True None = Inl TypeError) \<and>
   (lcen s = Some L \<and> L \<noteq> [] \<longrightarrow> (\<exists>e. trim_slits s True None = Inl e))"
proof (intro conjI allI impI)
  fix r st'
  assume "run ext True ignore_orders user_slits None st = Inr (r, st')"
  from run_Inr [OF this] show "(r = None \<and> run_detect ext st = Inr (False, st')) \<or>
      (\<exists>s1 s2. run_detect ext st = Inr (True, s1) \<and>
         run_edges ext True ignore_orders user_slits s1 = Inr s2 \<and>
         ((lmax s2 + 1 - lmin s2 = 1 \<and> rmax s2 + 1 - rmin s2 = 1) \<or>
          (\<exists>s3 s4. synchronize ext s2 = Inr s3 \<and> pca ext s3 = Inr s4 \<and>
             lcen s4 = Some [])))"
  proof
    assume "r = None \<and> run_detect ext st = Inr (False, st')"
    then show ?thesis by (rule disjI1)
  next
    assume "\<exists>s1 s2 d. run_detect ext st = Inr (True, s1) \<and>
            run_edges ext True ignore_orders user_slits s1 = Inr s2 \<and>
            run_finish ext True None s2 = Inr (d, st') \<and> r = Some d"
    then obtain s1 s2 d where
      d1: "run_detect ext st = Inr (True, s1)" and
      d2: "run_edges ext True ignore_orders user_slits s1 = Inr s2" and
      d3: "run_finish ext True None s2 = Inr (d, st')" by blast
    have "(lmax s2 + 1 - lmin s2 = 1 \<and> rmax s2 + 1 - rmin s2 = 1) \<or>
          (\<exists>s3 s4. synchronize ext s2 = Inr s3 \<and> pca ext s3 = Inr s4 \<and> lcen s4 = Some [])"
    proof (cases "lmax s2 + 1 - lmin s2 = 1 \<and> rmax s2 + 1 - rmin s2 = 1")
      case True
      then show ?thesis by (rule disjI1)
    next
      case False
      from run_finish_general [OF d3 False] obtain s3 s4 s5 where
        "synchronize ext s2 = Inr s3" "pca ext s3 = Inr s4"
        "trim_slits s4 True None = Inr s5" by blast
      with trim_slits_no_plate_scale [of s4 s5] show ?thesis by blast
    qed
    with d1 d2 show ?thesis by blast
  qed
next
  assume "lcen s = Some L \<and> rcen s = Some R \<and> L \<noteq> [] \<and> R \<noteq> [] \<and> L ! 0 \<noteq> [] \<and>
    length (R ! 0) = length (L ! 0)"
  then show "trim_slits s True None = Inl TypeError"
    using trim_slits_TypeError by blast
next
  assume a: "lcen s = Some L \<and> L \<noteq> []"
  show "\<exists>e. trim_slits s True None = Inl e"
  proof (cases "trim_slits s True None")
    case (Inl e)
    then show ?thesis by blast
  next
    case (Inr s')
    from trim_slits_no_plate_scale [OF this] a show ?thesis by simp
  qed
qed


lemma run_finish_empty:
  "map_sum id (\<lambda>r. (d_lcen (fst r), d_rcen (fst r)))
     (run_finish empty_core True None sync_example) = Inr (Some [], Some [])"
  by (simp add: run_finish_def chk_for_longslit_def synchronize_def pca_def unmasked_orders_def
      trim_slits_def make_pixel_arrays_def fill_tslits_dict_def
      empty_core_def example_core_def sync_example_def example_state_def example_par_def
      shape_replicate arr2_def append_step_def mean_int_def ebind_def wok_of_def Let_def)

text \<open>
  C10 as stated fails when no slit reaches the trimming: the loop of
  \<^verbatim>\<open>_trim_slits\<close> has no iteration, nothing is multiplied by \<^verbatim>\<open>plate_scale\<close>, and
  the general path completes with \<^verbatim>\<open>plate_scale = None\<close>.
\<close>

theorem run_without_plate_scale_counterexample:
  "\<not> (lmax sync_example + 1 - lmin sync_example = 1 \<and>
      rmax sync_example + 1 - rmin sync_example = 1) \<and>
   map_sum id (\<lambda>r. (d_lcen (fst r), d_rcen (fst r)))
     (run_finish empty_core True None sync_example) = Inr (Some [], Some []) \<and>
   trim_slits no_slit_example True None =
     Inr (no_slit_example\<lparr>lcen := Some [], rcen := Some [],
                          steps := [''make_binarr'', ''_trim_slits'']\<rparr>)"
  by (simp add: run_finish_empty)
    (simp add: sync_example_def no_slit_example_def example_state_def trim_slits_def
      wok_of_def ebind_def)

lemma run_longslit_core:
  "map_sum id (\<lambda>r. map_option (\<lambda>d. (d_lcen d, d_rcen d)) (fst r))
     (run longslit_core True False None None example_state) =
     Inr (Some (Some [[10, 10, 10]], Some [[40, 40, 40]]))"
  by (simp add: run_def run_detect_def run_edges_def run_finish_def
      edgearr_from_binarr_m_def match_edges_m_def add_left_right_def assign_edges_def
      relabel_left_def relabel_right_def final_left_right_def mslit_tcrude_def mslit_sync_def
      set_lrminx_def fit_edges_m_def chk_for_longslit_def first_col_def single_column_def
      make_pixel_arrays_def fill_tslits_dict_def
      longslit_core_def example_core_def example_state_def example_par_def
      shape_replicate arr2_def append_step_def mean_int_def amax_def amin_def
      ebind_def Let_def)

theorem run_without_plate_scale_witness:
  "(\<exists>r st'. run longslit_core True False None None example_state = Inr (r, st') \<and>
      ((r = None \<and> run_detect longslit_core example_state = Inr (False, st')) \<or>
       (\<exists>s1 s2. run_detect longslit_core example_state = Inr (True, s1) \<and>
          run_edges longslit_core True False None s1 = Inr s2 \<and>
          ((lmax s2 + 1 - lmin s2 = 1 \<and> rmax s2 + 1 - rmin s2 = 1) \<or>
           (\<exists>s3 s4. synchronize longslit_core s2 = Inr s3 \<and> pca longslit_core s3 = Inr s4 \<and>
              lcen s4 = Some []))))) \<and>
   trim_slits trim_example True None = Inl TypeError"
proof -
  note t = run_without_plate_scale [where ext = longslit_core and ignore_orders = False
      and user_slits = None and st = example_state and s = trim_example
      and L = "[[10, 10, 10], [60, 60, 60], [20, 20, 20], [30, 31, 45]]"
      and R = "[[40, 40, 40], [90, 90, 90], [22, 22, 22], [44, 44, 44]]"]
  have "\<exists>x. run longslit_core True False None None example_state = Inr x"
    using run_longslit_core
    by (cases "run longslit_core True False None None example_state") simp_all
  then obtain x where x: "run longslit_core True False None None example_state = Inr x" ..
  obtain r st' where "x = (r, st')" by (cases x)
  with x have run: "run longslit_core True False None None example_state = Inr (r, st')"
    by simp
  note a = conjunct1 [OF t, THEN spec, THEN spec, THEN mp, OF run]
  have one: "\<exists>r st'. run longslit_core True False None None example_state = Inr (r, st') \<and>
      ((r = None \<and> run_detect longslit_core example_state = Inr (False, st')) \<or>
       (\<exists>s1 s2. run_detect longslit_core example_state = Inr (True, s1) \<and>
          run_edges longslit_core True False None s1 = Inr s2 \<and>
          ((lmax s2 + 1 - lmin s2 = 1 \<and> rmax s2 + 1 - rmin s2 = 1) \<or>
           (\<exists>s3 s4. synchronize longslit_core s2 = Inr s3 \<and> pca longslit_core s3 = Inr s4 \<and>
              lcen s4 = Some []))))"
    apply (rule exI [of _ r])
    apply (rule exI [of _ st'])
    apply (rule conjI)
     apply (rule run)
    apply (rule a)
    done
  have h: "lcen trim_example = Some [[10, 10, 10], [60, 60, 60], [20, 20, 20], [30, 31, 45]] \<and>
      rcen trim_example = Some [[40, 40, 40], [90, 90, 90], [22, 22, 22], [44, 44, 44]] \<and>
      [[10, 10, 10], [60, 60, 60], [20, 20, 20], [30, 31, 45::real]] \<noteq> [] \<and>
      [[40, 40, 40], [90, 90, 90], [22, 22, 22], [44, 44, 44::real]] \<noteq> [] \<and>
      [[10, 10, 10], [60, 60, 60], [20, 20, 20], [30, 31, 45::real]] ! 0 \<noteq> [] \<and>
      length ([[40, 40, 40], [90, 90, 90], [22, 22, 22], [44, 44, 44::real]] ! 0) =
      length ([[10, 10, 10], [60, 60, 60], [20, 20, 20], [30, 31, 45::real]] ! 0)"
    by (simp add: trim_example_def)
  note two = conjunct2 [OF t, THEN conjunct1, THEN mp, OF h]
  from one two show ?thesis by (rule conjI)
qed

subsection \<open>Smoothing\<close>

lemma mirror_index_inside:
  "i < n \<Longrightarrow> mirror_index n (int i) = i"
  by (cases "n \<le> 1") (auto simp: mirror_index_def Let_def)

lemma mirror_index_before:
  "1 < n \<Longrightarrow> mirror_index n (- 1) = 1"
proof -
  assume n: "1 < n"
  have "(- 1 :: int) mod (2 * int n - 2) = 2 * int n - 3"
    using n by (simp add: zmod_minus1)
  with n show ?thesis by (auto simp: mirror_index_def Let_def)
qed

lemma mirror_index_after:
  "1 < n \<Longrightarrow> mirror_index n (int n) = n - 2"
proof (cases "n = 2")
  case True
  then show ?thesis by (simp add: mirror_index_def Let_def)
next
  case False
  assume "1 < n"
  with False have "int n mod (2 * int n - 2) = int n" by simp
  with \<open>1 < n\<close> show ?thesis by (auto simp: mirror_index_def Let_def)
qed

lemma uniform_filter_rows_3:
  assumes "i < length a" and "j < length (a ! i)"
  shows "uniform_filter_rows 3 a ! i ! j =
           (a ! mirror_index (length a) (int i - 1) ! j + a ! i ! j +
            a ! mirror_index (length a) (1 + int i) ! j) / 3"
proof -
  have "[0..<3] = [0, 1, 2]" by (simp add: upt_rec)
  with assms mirror_index_inside [OF assms(1)] show ?thesis
    by (simp add: uniform_filter_rows_def)
qed


lemma uniform_filter_rows_shape:
  "length (uniform_filter_rows w a) = length a"
  "i < length a \<Longrightarrow> length (uniform_filter_rows w a ! i) = length (a ! i)"
  by (simp_all add: uniform_filter_rows_def)

lemma mirror_index_neighbours:
  assumes "i < n"
  shows "mirror_index n (int i - 1) = (if n = 1 then 0 else if i = 0 then 1 else i - 1)"
    and "mirror_index n (1 + int i) = (if n = 1 then 0 else if i = n - 1 then n - 2 else i + 1)"
proof -
  show "mirror_index n (int i - 1) = (if n = 1 then 0 else if i = 0 then 1 else i - 1)"
  proof (cases "n = 1")
    case True
    then show ?thesis by (simp add: mirror_index_def)
  next
    case False
    with assms have n: "1 < n" by simp
    show ?thesis
    proof (cases "i = 0")
      case True
      with n mirror_index_before [OF n] show ?thesis by simp
    next
      case False
      then have "int i - 1 = int (i - 1)" by simp
      moreover from assms have "i - 1 < n" by simp
      ultimately show ?thesis
        using mirror_index_inside [of "i - 1" n] n False by simp
    qed
  qed
  show "mirror_index n (1 + int i) = (if n = 1 then 0 else if i = n - 1 then n - 2 else i + 1)"
  proof (cases "n = 1")
    case True
    then show ?thesis by (simp add: mirror_index_def)
  next
    case False
    with assms have n: "1 < n" by simp
    show ?thesis
    proof (cases "i = n - 1")
      case True
      with n have "1 + int i = int n" by simp
      with n True mirror_index_after [OF n] show ?thesis by simp
    next
      case False
      with assms have "Suc i < n" by simp
      then show ?thesis
        using mirror_index_inside [of "Suc i" n] n False by simp
    qed
  qed
qed

text \<open>
  C7. \<^verbatim>\<open>make_binarr\<close> always returns; it changes \<^verbatim>\<open>binarr\<close> and the log of steps
  only, and the result does not depend on the parameter set. \<^verbatim>\<open>binarr\<close> has the
  shape of the trace image, and each of its pixels is the mean of three pixels of the
  same column of the trace image: the pixel itself, the one in the row before and the
  one in the row after, where the row before the first row is the second row and the
  row after the last row is the last but one (the only row, if there is just one).
\<close>

theorem make_binarr_smooths:
  "make_binarr st =
     st\<lparr>binarr := binarr (make_binarr st), steps := steps st @ [''make_binarr'']\<rparr> \<and>
   make_binarr (st\<lparr>par := p\<rparr>) = (make_binarr st)\<lparr>par := p\<rparr> \<and>
   length (binarr (make_binarr st)) = length (mstrace st) \<and>
   (\<forall>i<length (mstrace st).
      length (binarr (make_binarr st) ! i) = length (mstrace st ! i) \<and>
      (\<forall>j<length (mstrace st ! i).
         binarr (make_binarr st) ! i ! j =
           (mstrace st ! (if length (mstrace st) = 1 then 0 else if i = 0 then 1 else i - 1) ! j
            + mstrace st ! i ! j
            + mstrace st ! (if length (mstrace st) = 1 then 0
                            else if i = length (mstrace st) - 1 then length (mstrace st) - 2
                            else i + 1) ! j) / 3))"
proof (intro conjI allI impI)
  show "make_binarr st =
     st\<lparr>binarr := binarr (make_binarr st), steps := steps st @ [''make_binarr'']\<rparr>"
    by (simp add: make_binarr_def append_step_def)
  show "make_binarr (st\<lparr>par := p\<rparr>) = (make_binarr st)\<lparr>par := p\<rparr>"
    by (simp add: make_binarr_def append_step_def)
  show "length (binarr (make_binarr st)) = length (mstrace st)"
    by (simp add: make_binarr_def append_step_def uniform_filter_rows_shape)
next
  fix i
  assume i: "i < length (mstrace st)"
  then show "length (binarr (make_binarr st) ! i) = length (mstrace st ! i)"
    by (simp add: make_binarr_def append_step_def uniform_filter_rows_shape)
  fix j
  assume j: "j < length (mstrace st ! i)"
  have b: "binarr (make_binarr st) = uniform_filter_rows 3 (mstrace st)"
    by (simp add: make_binarr_def append_step_def)
  show "binarr (make_binarr st) ! i ! j =
           (mstrace st ! (if length (mstrace st) = 1 then 0 else if i = 0 then 1 else i - 1) ! j
            + mstrace st ! i ! j
            + mstrace st ! (if length (mstrace st) = 1 then 0
                            else if i = length (mstrace st) - 1 then length (mstrace st) - 2
                            else i + 1) ! j) / 3"
    unfolding b uniform_filter_rows_3 [OF i j] mirror_index_neighbours [OF i] ..
qed

theorem make_binarr_smooths_witness:
  "0 < length (mstrace smooth_example) \<and> 1 < length (mstrace smooth_example ! 0) \<and>
   2 < length (mstrace smooth_example) \<and> 1 < length (mstrace smooth_example ! 2) \<and>
   binarr (make_binarr smooth_example) ! 0 ! 1 = 6 \<and>
   binarr (make_binarr smooth_example) ! 2 ! 1 = 7"
proof -
  have m: "mstrace smooth_example = [[1, 2], [4, 8], [7, 5]]"
    by (simp add: smooth_example_def)
  note t = make_binarr_smooths [where st = smooth_example, THEN conjunct2, THEN conjunct2,
      THEN conjunct2]
  have i0: "0 < length (mstrace smooth_example)" and j0: "1 < length (mstrace smooth_example ! 0)"
    and i2: "2 < length (mstrace smooth_example)" and j2: "1 < length (mstrace smooth_example ! 2)"
    by (simp_all add: m)
  from t [THEN spec, THEN mp, OF i0, THEN conjunct2, THEN spec, THEN mp, OF j0]
  have a: "binarr (make_binarr smooth_example) ! 0 ! 1 = 6" by (simp add: m)
  from t [THEN spec, THEN mp, OF i2, THEN conjunct2, THEN spec, THEN mp, OF j2]
  have b: "binarr (make_binarr smooth_example) ! 2 ! 1 = 7" by (simp add: m)
  from i0 j0 i2 j2 a b show ?thesis by (intro conjI)
qed

end
